theory Spec2Isabelle
  imports Complex_Main "HOL-Library.Log_Nat"
begin

section \<open>JSON text as accepted by encoding/json\<close>

text \<open>
  The exporter hands the response body to \<^verbatim>\<open>json.Unmarshal(body, &parsed)\<close>.
  The library first checks the whole text against the JSON grammar and then walks the
  value into the target struct. The text is a list of bytes; it is cut into tokens,
  the tokens are assembled into a value, the value is stored into the struct.
\<close>

text \<open>
  A number literal \<^verbatim>\<open>-?int(.frac)?([eE][+-]?exp)?\<close>: the sign, the digits of the
  integer and fraction parts read as one decimal number, the number of fraction digits
  (None without a fraction part) and the exponent (None without an exponent part).
\<close>

datatype numlit = NumLit (lit_neg: bool) (lit_digits: int) (lit_frac: "nat option") (lit_exp: "int option")

datatype token =
    TLBrace | TRBrace | TLBrack | TRBrack | TColon | TComma
  | TTrue | TFalse | TNull | TNum numlit | TStr string

datatype json =
    JNull | JBool bool | JNumber numlit | JString string
  | JArray "json list" | JObject "(string \<times> json) list"

definition is_space :: "char \<Rightarrow> bool" where
  "is_space c \<longleftrightarrow> c = CHR 0x20 \<or> c = CHR 0x09 \<or> c = CHR 0x0D \<or> c = CHR 0x0A"

definition is_digit :: "char \<Rightarrow> bool" where
  "is_digit c \<longleftrightarrow> (48::nat) \<le> of_char c \<and> (of_char c :: nat) \<le> 57"

definition digit_val :: "char \<Rightarrow> int" where
  "digit_val c = of_char c - 48"

definition digits_val :: "string \<Rightarrow> int" where
  "digits_val ds = foldl (\<lambda>a c. 10 * a + digit_val c) 0 ds"

definition hex_val :: "char \<Rightarrow> nat option" where
  "hex_val c =
     (let n = (of_char c :: nat) in
      if 48 \<le> n \<and> n \<le> 57 then Some (n - 48)
      else if 97 \<le> n \<and> n \<le> 102 then Some (n - 87)
      else if 65 \<le> n \<and> n \<le> 70 then Some (n - 55)
      else None)"

text \<open>\<^verbatim>\<open>getu4\<close>: the code unit of four hexadecimal digits.\<close>

definition getu4 :: "string \<Rightarrow> nat option" where
  "getu4 cs =
     (case cs of
        a # b # c # d # _ \<Rightarrow>
          (case (hex_val a, hex_val b, hex_val c, hex_val d) of
             (Some x, Some y, Some z, Some w) \<Rightarrow> Some (((x * 16 + y) * 16 + z) * 16 + w)
           | _ \<Rightarrow> None)
      | _ \<Rightarrow> None)"

text \<open>\<^verbatim>\<open>utf8.EncodeRune\<close> for a code point below 0x110000.\<close>

definition utf8_encode :: "nat \<Rightarrow> string" where
  "utf8_encode r =
     (if r < 0x80 then [char_of r]
      else if r < 0x800 then [char_of (0xC0 + r div 64), char_of (0x80 + r mod 64)]
      else if r < 0x10000 then
        [char_of (0xE0 + r div 4096), char_of (0x80 + (r div 64) mod 64), char_of (0x80 + r mod 64)]
      else
        [char_of (0xF0 + r div 262144), char_of (0x80 + (r div 4096) mod 64),
         char_of (0x80 + (r div 64) mod 64), char_of (0x80 + r mod 64)])"

definition is_surrogate :: "nat \<Rightarrow> bool" where
  "is_surrogate r \<longleftrightarrow> 0xD800 \<le> r \<and> r < 0xE000"

text \<open>
  The second half of a surrogate pair, when the text goes on with \<^verbatim>\<open>\uXXXX\<close>
  holding a low surrogate after the high surrogate \<open>r\<close>: the combined code point.
\<close>

definition surrogate_pair :: "nat \<Rightarrow> string \<Rightarrow> nat option" where
  "surrogate_pair r cs =
     (case cs of
        b # u # rest \<Rightarrow>
          (if b = CHR 0x5C \<and> u = CHR ''u'' then
             (case getu4 rest of
                Some r2 \<Rightarrow>
                  (if r < 0xDC00 \<and> 0xDC00 \<le> r2 \<and> r2 < 0xE000
                   then Some ((r - 0xD800) * 1024 + (r2 - 0xDC00) + 0x10000)
                   else None)
              | None \<Rightarrow> None)
           else None)
      | _ \<Rightarrow> None)"

definition unescape :: "char \<Rightarrow> char option" where
  "unescape c =
     (if c = CHR 0x22 \<or> c = CHR 0x5C \<or> c = CHR ''/'' then Some c
      else if c = CHR ''b'' then Some (CHR 0x08)
      else if c = CHR ''f'' then Some (CHR 0x0C)
      else if c = CHR ''n'' then Some (CHR 0x0A)
      else if c = CHR ''r'' then Some (CHR 0x0D)
      else if c = CHR ''t'' then Some (CHR 0x09)
      else None)"

text \<open>
  A string literal after its opening quote: the unquoted bytes and the text after the
  closing quote. Control characters are refused, escapes are resolved; a lone surrogate
  becomes U+FFFD.
\<close>

fun lex_string :: "string \<Rightarrow> (string \<times> string) option" where
  "lex_string [] = None"
| "lex_string (c # cs) =
     (if c = CHR 0x22 then Some ([], cs)
      else if c = CHR 0x5C then
        (case cs of
           [] \<Rightarrow> None
         | e # r \<Rightarrow>
             (if e = CHR ''u'' then
                (case getu4 r of
                   None \<Rightarrow> None
                 | Some rr \<Rightarrow>
                     (if is_surrogate rr then
                        (case surrogate_pair rr (drop 4 r) of
                           Some dec \<Rightarrow>
                             map_option (\<lambda>(s, rest). (utf8_encode dec @ s, rest)) (lex_string (drop 10 r))
                         | None \<Rightarrow>
                             map_option (\<lambda>(s, rest). (utf8_encode 0xFFFD @ s, rest)) (lex_string (drop 4 r)))
                      else map_option (\<lambda>(s, rest). (utf8_encode rr @ s, rest)) (lex_string (drop 4 r))))
              else
                (case unescape e of
                   None \<Rightarrow> None
                 | Some b \<Rightarrow> map_option (\<lambda>(s, rest). (b # s, rest)) (lex_string r))))
      else if (of_char c :: nat) < 0x20 then None
      else map_option (\<lambda>(s, rest). (c # s, rest)) (lex_string cs))"

definition lex_fraction :: "string \<Rightarrow> (string option \<times> string) option" where
  "lex_fraction cs =
     (case cs of
        [] \<Rightarrow> Some (None, [])
      | c # r \<Rightarrow>
          (if c = CHR ''.'' then
             (if takeWhile is_digit r = [] then None
              else Some (Some (takeWhile is_digit r), dropWhile is_digit r))
           else Some (None, cs)))"

definition lex_exponent :: "string \<Rightarrow> (int option \<times> string) option" where
  "lex_exponent cs =
     (case cs of
        [] \<Rightarrow> Some (None, [])
      | c # r \<Rightarrow>
          (if c = CHR ''e'' \<or> c = CHR ''E'' then
             (let minus = (case r of s # _ \<Rightarrow> s = CHR ''-'' | [] \<Rightarrow> False);
                  signed = (case r of s # _ \<Rightarrow> s = CHR ''-'' \<or> s = CHR ''+'' | [] \<Rightarrow> False);
                  r1 = (if signed then tl r else r)
              in if takeWhile is_digit r1 = [] then None
                 else Some (Some ((if minus then - 1 else 1) * digits_val (takeWhile is_digit r1)),
                            dropWhile is_digit r1))
           else Some (None, cs)))"

text \<open>
  A number literal at the head of the text. An integer part with a leading zero is the
  single digit 0.
\<close>

definition lex_number :: "string \<Rightarrow> (numlit \<times> string) option" where
  "lex_number cs =
     (let neg = (case cs of c # _ \<Rightarrow> c = CHR ''-'' | [] \<Rightarrow> False);
          cs1 = (if neg then tl cs else cs);
          ip = takeWhile is_digit cs1
      in if ip = [] \<or> (hd ip = CHR ''0'' \<and> 1 < length ip) then None
         else
           (case lex_fraction (dropWhile is_digit cs1) of
              None \<Rightarrow> None
            | Some (fr, cs3) \<Rightarrow>
                (case lex_exponent cs3 of
                   None \<Rightarrow> None
                 | Some (ex, cs4) \<Rightarrow>
                     Some (NumLit neg (digits_val (ip @ (case fr of None \<Rightarrow> [] | Some fs \<Rightarrow> fs)))
                             (map_option length fr) ex, cs4))))"

text \<open>Both literal scanners consume at least one byte, so the tokenizer below terminates.\<close>

lemma lex_string_shorter: "lex_string cs = Some (s, rest) \<Longrightarrow> length rest < length cs"
proof (induction cs arbitrary: s rest rule: lex_string.induct)
  case 1
  then show ?case by simp
next
  case (2 c cs)
  then show ?case
    by (cases cs) (auto split: if_splits option.splits, fastforce+)
qed

lemma lex_fraction_shorter: "lex_fraction cs = Some (fr, rest) \<Longrightarrow> length rest \<le> length cs"
  by (auto simp: lex_fraction_def split: list.splits if_splits
      intro: le_SucI length_dropWhile_le)

lemma lex_exponent_shorter: "lex_exponent cs = Some (ex, rest) \<Longrightarrow> length rest \<le> length cs"
proof (cases cs)
  case Nil
  assume "lex_exponent cs = Some (ex, rest)"
  with Nil show ?thesis by (simp add: lex_exponent_def)
next
  case (Cons c r)
  assume a: "lex_exponent cs = Some (ex, rest)"
  have tl: "length (tl r) \<le> length r" by simp
  have "length (dropWhile is_digit (tl r)) \<le> length r"
    using length_dropWhile_le[of is_digit "tl r"] tl by linarith
  moreover have "length (dropWhile is_digit r) \<le> length r"
    by (rule length_dropWhile_le)
  ultimately show ?thesis
    using a Cons by (auto simp: lex_exponent_def Let_def split: if_splits)
qed

lemma lex_number_shorter:
  assumes "lex_number (c # cs) = Some (n, rest)"
  shows "length rest \<le> length cs"
proof -
  define cs1 where "cs1 = (if c = CHR ''-'' then cs else c # cs)"
  from assms have ne: "takeWhile is_digit cs1 \<noteq> []"
    by (auto simp: lex_number_def Let_def cs1_def split: if_splits)
  from assms obtain fr cs3 ex where
    f: "lex_fraction (dropWhile is_digit cs1) = Some (fr, cs3)" and
    e: "lex_exponent cs3 = Some (ex, rest)"
    by (auto simp: lex_number_def Let_def cs1_def split: if_splits option.splits)
  have "length (takeWhile is_digit cs1) + length (dropWhile is_digit cs1) = length cs1"
    by (metis length_append takeWhile_dropWhile_id)
  with ne have "length (dropWhile is_digit cs1) < length cs1"
    by (cases "takeWhile is_digit cs1") auto
  moreover have "length cs1 \<le> Suc (length cs)"
    by (simp add: cs1_def)
  ultimately show ?thesis
    using lex_fraction_shorter[OF f] lex_exponent_shorter[OF e] by linarith
qed

definition punct :: "char \<Rightarrow> token option" where
  "punct c =
     (if c = CHR ''{'' then Some TLBrace
      else if c = CHR ''}'' then Some TRBrace
      else if c = CHR ''['' then Some TLBrack
      else if c = CHR '']'' then Some TRBrack
      else if c = CHR '':'' then Some TColon
      else if c = CHR '','' then Some TComma
      else None)"

text \<open>The tokens of a text; None where no token starts or a literal is malformed.\<close>

function lex :: "string \<Rightarrow> token list option" where
  "lex [] = Some []"
| "lex (c # cs) =
     (if is_space c then lex cs
      else if punct c \<noteq> None then map_option ((#) (the (punct c))) (lex cs)
      else if c = CHR 0x22 then
        (case lex_string cs of
           None \<Rightarrow> None
         | Some (s, rest) \<Rightarrow> map_option ((#) (TStr s)) (lex rest))
      else if c = CHR ''-'' \<or> is_digit c then
        (case lex_number (c # cs) of
           None \<Rightarrow> None
         | Some (n, rest) \<Rightarrow> map_option ((#) (TNum n)) (lex rest))
      else if c = CHR ''t'' \<and> take 3 cs = ''rue'' then map_option ((#) TTrue) (lex (drop 3 cs))
      else if c = CHR ''f'' \<and> take 4 cs = ''alse'' then map_option ((#) TFalse) (lex (drop 4 cs))
      else if c = CHR ''n'' \<and> take 3 cs = ''ull'' then map_option ((#) TNull) (lex (drop 3 cs))
      else None)"
  by pat_completeness auto
termination
proof (relation "measure length")
  show "wf (measure length)" by simp
qed (auto dest: lex_string_shorter lex_number_shorter)

subsection \<open>Assembling the value\<close>

text \<open>
  The library's scanner keeps a stack of the arrays and objects it is inside, at most
  10000 deep. A frame holds what has been read of an array or an object so far; an
  object that has read a key and waits for its value is a \<open>FMember\<close>.
\<close>

datatype frame =
    FArray "json list"
  | FObject "(string \<times> json) list"
  | FMember "(string \<times> json) list" string

datatype phase =
    NeedValue | NeedValueOrClose | NeedKeyOrClose | NeedKey | NeedColon | AfterValue
  | Finished json

definition maxNestingDepth :: nat where
  "maxNestingDepth = 10000"

fun reduce :: "json \<Rightarrow> frame list \<Rightarrow> (frame list \<times> phase) option" where
  "reduce v [] = Some ([], Finished v)"
| "reduce v (FArray vs # st) = Some (FArray (vs @ [v]) # st, AfterValue)"
| "reduce v (FMember ms k # st) = Some (FObject (ms @ [(k, v)]) # st, AfterValue)"
| "reduce v (FObject ms # st) = None"

fun begin_value :: "token \<Rightarrow> frame list \<Rightarrow> (frame list \<times> phase) option" where
  "begin_value TLBrack st =
     (if length st < maxNestingDepth then Some (FArray [] # st, NeedValueOrClose) else None)"
| "begin_value TLBrace st =
     (if length st < maxNestingDepth then Some (FObject [] # st, NeedKeyOrClose) else None)"
| "begin_value TTrue st = reduce (JBool True) st"
| "begin_value TFalse st = reduce (JBool False) st"
| "begin_value TNull st = reduce JNull st"
| "begin_value (TNum n) st = reduce (JNumber n) st"
| "begin_value (TStr s) st = reduce (JString s) st"
| "begin_value _ st = None"

fun begin_key :: "token \<Rightarrow> frame list \<Rightarrow> (frame list \<times> phase) option" where
  "begin_key (TStr k) (FObject ms # st) = Some (FMember ms k # st, NeedColon)"
| "begin_key _ _ = None"

fun close_frame :: "token \<Rightarrow> frame list \<Rightarrow> (frame list \<times> phase) option" where
  "close_frame TRBrack (FArray vs # st) = reduce (JArray vs) st"
| "close_frame TRBrace (FObject ms # st) = reduce (JObject ms) st"
| "close_frame _ _ = None"

fun pstep :: "token \<Rightarrow> frame list \<times> phase \<Rightarrow> (frame list \<times> phase) option" where
  "pstep t (st, NeedValue) = begin_value t st"
| "pstep t (st, NeedValueOrClose) = (if t = TRBrack then close_frame t st else begin_value t st)"
| "pstep t (st, NeedKeyOrClose) = (if t = TRBrace then close_frame t st else begin_key t st)"
| "pstep t (st, NeedKey) = begin_key t st"
| "pstep t (st, NeedColon) = (if t = TColon then Some (st, NeedValue) else None)"
| "pstep t (st, AfterValue) =
     (if t = TComma then
        (case st of
           FArray vs # _ \<Rightarrow> Some (st, NeedValue)
         | FObject ms # _ \<Rightarrow> Some (st, NeedKey)
         | _ \<Rightarrow> None)
      else close_frame t st)"
| "pstep t (st, Finished v) = None"

fun psteps :: "token list \<Rightarrow> frame list \<times> phase \<Rightarrow> (frame list \<times> phase) option" where
  "psteps [] s = Some s"
| "psteps (t # ts) s = (case pstep t s of None \<Rightarrow> None | Some s' \<Rightarrow> psteps ts s')"

text \<open>The value a text denotes; None is the library's SyntaxError.\<close>

definition parse_json :: "string \<Rightarrow> json option" where
  "parse_json body =
     (case lex body of
        None \<Rightarrow> None
      | Some ts \<Rightarrow>
          (case psteps ts ([], NeedValue) of
             Some ([], Finished v) \<Rightarrow> Some v
           | _ \<Rightarrow> None))"

section \<open>Numbers\<close>

text \<open>
  A float64 is modelled by the rational number it denotes (every finite double is one;
  the two zeros are not told apart). Rounding is to the nearest double, ties to the even
  significand, with 53 significant bits and the least exponent of the subnormals.
\<close>

definition lit_value :: "numlit \<Rightarrow> rat" where
  "lit_value l =
     (let m = of_int (lit_digits l) *
              power_int 10 ((case lit_exp l of None \<Rightarrow> 0 | Some e \<Rightarrow> e)
                            - (case lit_frac l of None \<Rightarrow> 0 | Some k \<Rightarrow> int k))
      in if lit_neg l then - m else m)"

definition ilog2 :: "rat \<Rightarrow> int" where
  \<comment> \<open>for \<open>0 < x\<close>, the exponent \<open>e\<close> with \<open>2 ^ e \<le> x < 2 ^ (e + 1)\<close>\<close>
  "ilog2 x =
     (let (p, q) = quotient_of x;
          a = int (floorlog 2 (nat p)) - int (floorlog 2 (nat q))
      in if power_int 2 a \<le> x then a else a - 1)"

definition round_half_even :: "rat \<Rightarrow> int" where
  "round_half_even x =
     (let f = \<lfloor>x\<rfloor>; d = x - of_int f
      in if d < 1 / 2 then f
         else if 1 / 2 < d then f + 1
         else if even f then f else f + 1)"

definition nearest_float64 :: "rat \<Rightarrow> rat" where
  "nearest_float64 x =
     (if x = 0 then 0
      else let q = power_int 2 (max (ilog2 \<bar>x\<bar> - 52) (- 1074))
           in of_int (round_half_even (x / q)) * q)"

text \<open>The conversion \<^verbatim>\<open>float64(n)\<close> of an int.\<close>

definition float64_of_int :: "int \<Rightarrow> rat" where
  "float64_of_int n = nearest_float64 (of_int n)"

text \<open>
  \<^verbatim>\<open>strconv.ParseInt(s, 10, 64)\<close> on a JSON number literal: a fraction or an exponent
  part is a syntax error for it, a value outside int64 a range error. On the 64-bit
  platforms taken here \<^verbatim>\<open>int\<close> is int64, so \<^verbatim>\<open>OverflowInt\<close> adds nothing.
\<close>

definition ParseInt :: "numlit \<Rightarrow> int option" where
  "ParseInt l =
     (if lit_frac l \<noteq> None \<or> lit_exp l \<noteq> None then None
      else let v = (if lit_neg l then - lit_digits l else lit_digits l)
           in if - (2 ^ 63) \<le> v \<and> v < 2 ^ 63 then Some v else None)"

text \<open>
  \<^verbatim>\<open>strconv.ParseFloat(s, 64)\<close> on a JSON number literal: the nearest double, and a
  range error when that is beyond the largest finite double.
\<close>

definition ParseFloat :: "numlit \<Rightarrow> rat option" where
  "ParseFloat l =
     (let r = nearest_float64 (lit_value l)
      in if 2 ^ 1024 \<le> \<bar>r\<bar> then None else Some r)"

section \<open>Decoding into the exporter's structs\<close>

text \<open>
  \<^verbatim>\<open>
  type APIData struct {
      CO2         int     `json:"co"`
      P25         int     `json:"p2"`
      P10         int     `json:"p1"`
      Temperature float64 `json:"tp"`
      Humidity    int     `json:"hm"`
  }
  type APIResponse struct {
      Current APIData `json:"current"`
  }
  \<close>
\<close>

record APIData =
  CO2 :: int
  P25 :: int
  P10 :: int
  Temperature :: rat
  Humidity :: int

record APIResponse =
  Current :: APIData

definition zero_APIData :: APIData where
  "zero_APIData = \<lparr>CO2 = 0, P25 = 0, P10 = 0, Temperature = 0, Humidity = 0\<rparr>"

definition zero_APIResponse :: APIResponse where
  "zero_APIResponse = \<lparr>Current = zero_APIData\<rparr>"

datatype json_error =
    SyntaxError
  | UnmarshalTypeError string string  \<comment> \<open>the JSON value, the Go type it cannot be stored in\<close>

fun json_kind :: "json \<Rightarrow> string" where
  "json_kind JNull = ''null''"
| "json_kind (JBool b) = ''bool''"
| "json_kind (JNumber n) = ''number''"
| "json_kind (JString s) = ''string''"
| "json_kind (JArray vs) = ''array''"
| "json_kind (JObject ms) = ''object''"

text \<open>\<^verbatim>\<open>d.saveError\<close>: the decoder goes on after a type error and reports the first one.\<close>

definition saveError :: "json_error option \<Rightarrow> json_error option \<Rightarrow> json_error option" where
  "saveError saved err = (case saved of None \<Rightarrow> err | Some e \<Rightarrow> Some e)"

text \<open>
  Storing a value into an int or a float64 field: null leaves the field as it is, a
  number is parsed for the field's type, any other value is a type error and leaves the
  field as it is.
\<close>

fun store_int :: "json \<Rightarrow> int \<Rightarrow> int \<times> json_error option" where
  "store_int JNull old = (old, None)"
| "store_int (JNumber l) old =
     (case ParseInt l of
        Some n \<Rightarrow> (n, None)
      | None \<Rightarrow> (old, Some (UnmarshalTypeError ''number'' ''int'')))"
| "store_int v old = (old, Some (UnmarshalTypeError (json_kind v) ''int''))"

fun store_float64 :: "json \<Rightarrow> rat \<Rightarrow> rat \<times> json_error option" where
  "store_float64 JNull old = (old, None)"
| "store_float64 (JNumber l) old =
     (case ParseFloat l of
        Some x \<Rightarrow> (x, None)
      | None \<Rightarrow> (old, Some (UnmarshalTypeError ''number'' ''float64'')))"
| "store_float64 v old = (old, Some (UnmarshalTypeError (json_kind v) ''float64''))"

text \<open>
  A key selects the field whose tag it equals, letter case ignored. The tags of these
  structs hold no \<open>k\<close> and no \<open>s\<close>, the only letters that have a non-ASCII case variant,
  so folding the ASCII letters of the key decides the match.
\<close>

definition fold_name :: "string \<Rightarrow> string" where
  "fold_name k =
     map (\<lambda>c. if (65::nat) \<le> of_char c \<and> (of_char c :: nat) \<le> 90
              then char_of (of_char c + (32::nat)) else c) k"

definition member_APIData :: "APIData \<times> json_error option \<Rightarrow> string \<times> json \<Rightarrow> APIData \<times> json_error option" where
  "member_APIData st m =
     (let d = fst st; saved = snd st; f = fold_name (fst m); v = snd m
      in if f = ''co'' then (d\<lparr>CO2 := fst (store_int v (CO2 d))\<rparr>, saveError saved (snd (store_int v (CO2 d))))
         else if f = ''p2'' then (d\<lparr>P25 := fst (store_int v (P25 d))\<rparr>, saveError saved (snd (store_int v (P25 d))))
         else if f = ''p1'' then (d\<lparr>P10 := fst (store_int v (P10 d))\<rparr>, saveError saved (snd (store_int v (P10 d))))
         else if f = ''tp'' then
           (d\<lparr>Temperature := fst (store_float64 v (Temperature d))\<rparr>,
            saveError saved (snd (store_float64 v (Temperature d))))
         else if f = ''hm'' then
           (d\<lparr>Humidity := fst (store_int v (Humidity d))\<rparr>, saveError saved (snd (store_int v (Humidity d))))
         else (d, saved))"

fun value_APIData :: "json \<Rightarrow> APIData \<times> json_error option \<Rightarrow> APIData \<times> json_error option" where
  "value_APIData (JObject ms) st = foldl member_APIData st ms"
| "value_APIData JNull st = st"
| "value_APIData v st = (fst st, saveError (snd st) (Some (UnmarshalTypeError (json_kind v) ''main.APIData'')))"

definition member_APIResponse :: "APIResponse \<times> json_error option \<Rightarrow> string \<times> json \<Rightarrow> APIResponse \<times> json_error option" where
  "member_APIResponse st m =
     (let r = fst st; saved = snd st
      in if fold_name (fst m) = ''current''
         then (r\<lparr>Current := fst (value_APIData (snd m) (Current r, saved))\<rparr>,
               snd (value_APIData (snd m) (Current r, saved)))
         else (r, saved))"

fun value_APIResponse :: "json \<Rightarrow> APIResponse \<times> json_error option \<Rightarrow> APIResponse \<times> json_error option" where
  "value_APIResponse (JObject ms) st = foldl member_APIResponse st ms"
| "value_APIResponse JNull st = st"
| "value_APIResponse v st = (fst st, saveError (snd st) (Some (UnmarshalTypeError (json_kind v) ''main.APIResponse'')))"

text \<open>
  \<^verbatim>\<open>json.Unmarshal(body, &parsed)\<close>: the struct as it is left and the error returned
  (None for nil). A text that is not JSON leaves the struct untouched.
\<close>

definition Unmarshal :: "string \<Rightarrow> APIResponse \<Rightarrow> APIResponse \<times> json_error option" where
  "Unmarshal body parsed =
     (case parse_json body of
        None \<Rightarrow> (parsed, Some SyntaxError)
      | Some j \<Rightarrow> value_APIResponse j (parsed, None))"

section \<open>The Prometheus client values the exporter builds\<close>

text \<open>
  A descriptor carries the metric's full name and help text, and the error NewDesc
  records for a name that is not a metric name (\<^verbatim>\<open>[a-zA-Z_:][a-zA-Z0-9_:]*\<close>); the
  exporter uses no labels.
\<close>

record Desc =
  fqName :: string
  desc_help :: string
  desc_err :: "string option"

datatype ValueType = CounterValue | GaugeValue | UntypedValue

record Metric =
  metric_desc :: Desc
  metric_type :: ValueType
  metric_value :: rat

record Counter =
  counter_desc :: Desc
  counter_val :: nat

record CounterOpts =
  Namespace :: string
  Subsystem :: string
  Name :: string
  Help :: string

definition BuildFQName :: "string \<Rightarrow> string \<Rightarrow> string \<Rightarrow> string" where
  "BuildFQName ns subsystem name =
     (if name = [] then []
      else if ns \<noteq> [] \<and> subsystem \<noteq> [] then ns @ ''_'' @ subsystem @ ''_'' @ name
      else if ns \<noteq> [] then ns @ ''_'' @ name
      else if subsystem \<noteq> [] then subsystem @ ''_'' @ name
      else name)"

definition is_name_start :: "char \<Rightarrow> bool" where
  "is_name_start c \<longleftrightarrow>
     (let n = (of_char c :: nat)
      in (97 \<le> n \<and> n \<le> 122) \<or> (65 \<le> n \<and> n \<le> 90) \<or> c = CHR ''_'' \<or> c = CHR '':'')"

definition IsValidMetricName :: "string \<Rightarrow> bool" where
  "IsValidMetricName s =
     (case s of
        [] \<Rightarrow> False
      | c # cs \<Rightarrow> is_name_start c \<and> list_all (\<lambda>x. is_name_start x \<or> is_digit x) cs)"

definition NewDesc :: "string \<Rightarrow> string \<Rightarrow> Desc" where
  "NewDesc fq h =
     \<lparr>fqName = fq, desc_help = h,
      desc_err = (if IsValidMetricName fq then None else Some (fq @ '' is not a valid metric name''))\<rparr>"

definition NewCounter :: "CounterOpts \<Rightarrow> Counter" where
  "NewCounter opts =
     \<lparr>counter_desc = NewDesc (BuildFQName (Namespace opts) (Subsystem opts) (Name opts)) (Help opts),
      counter_val = 0\<rparr>"

definition Counter_Inc :: "Counter \<Rightarrow> Counter" where
  "Counter_Inc c = c\<lparr>counter_val := counter_val c + 1\<rparr>"

text \<open>What a counter sent on the channel reports: its descriptor and its count as a float64.\<close>

definition Counter_Metric :: "Counter \<Rightarrow> Metric" where
  "Counter_Metric c =
     \<lparr>metric_desc = counter_desc c, metric_type = CounterValue,
      metric_value = float64_of_int (int (counter_val c))\<rparr>"

text \<open>MustNewConstMetric panics (\<open>Inl\<close>) on a descriptor that carries an error.\<close>

definition MustNewConstMetric :: "Desc \<Rightarrow> ValueType \<Rightarrow> rat \<Rightarrow> string + Metric" where
  "MustNewConstMetric d t v =
     (case desc_err d of
        Some msg \<Rightarrow> Inl msg
      | None \<Rightarrow> Inr \<lparr>metric_desc = d, metric_type = t, metric_value = v\<rparr>)"

section \<open>The upstream as the exporter sees it\<close>

text \<open>
  \<^verbatim>\<open>http.Get\<close> answers with an error (connection refused, DNS failure, ...) or with a
  response of any status code; reading the body then fails or gives its bytes. An
  upstream may also accept the request and never answer. Durations are nanoseconds, as
  \<^verbatim>\<open>time.Duration\<close>; the delay of a reply is the time until its body is complete.
\<close>

datatype body_stream = ReadFails string | Body string

record Response =
  StatusCode :: nat
  RespBody :: body_stream

datatype upstream = Unreachable string | NoReply | Reply int Response

record Client =
  Timeout :: int

text \<open>\<^verbatim>\<open>http.DefaultClient = &Client{}\<close>; a Timeout of zero means no timeout.\<close>

definition DefaultClient :: Client where
  "DefaultClient = \<lparr>Timeout = 0\<rparr>"

text \<open>The result of a GET by a client; None when the call never returns.\<close>

definition Client_Get :: "Client \<Rightarrow> upstream \<Rightarrow> (string + Response) option" where
  "Client_Get c u =
     (case u of
        Unreachable msg \<Rightarrow> Some (Inl msg)
      | NoReply \<Rightarrow> (if 0 < Timeout c then Some (Inl ''Client.Timeout exceeded'') else None)
      | Reply delay resp \<Rightarrow>
          (if 0 < Timeout c \<and> Timeout c < delay then Some (Inl ''Client.Timeout exceeded'')
           else Some (Inr resp)))"

text \<open>\<^verbatim>\<open>http.Get(url)\<close> is \<^verbatim>\<open>DefaultClient.Get(url)\<close>.\<close>

definition http_Get :: "(string \<Rightarrow> upstream) \<Rightarrow> string \<Rightarrow> (string + Response) option" where
  "http_Get net url = Client_Get DefaultClient (net url)"

definition ReadAll :: "body_stream \<Rightarrow> string + string" where
  "ReadAll b = (case b of ReadFails msg \<Rightarrow> Inl msg | Body bytes \<Rightarrow> Inr bytes)"

section \<open>The exporter\<close>

datatype go_error = HTTPError string | ReadError string | JSONError json_error

text \<open>
  A logger is modelled by what it has been handed: each call of \<^verbatim>\<open>Log(keyvals...)\<close>
  appends its arguments as they are.
\<close>

datatype logval = LogString string | LogError go_error | LogResponse APIResponse

type_synonym Logger = "logval list list"

definition Log :: "Logger \<Rightarrow> logval list \<Rightarrow> Logger" where
  "Log l keyvals = l @ [keyvals]"

definition namespace :: string where
  "namespace = ''iqair''"

definition iqAirUp :: Desc where
  "iqAirUp = NewDesc (BuildFQName namespace [] ''up'') ''Was the last scrape of iqAir successful.''"

definition iqAirCO2 :: Desc where
  "iqAirCO2 = NewDesc (BuildFQName namespace [] ''co2'') ''CO2 reading.''"

definition iqAirP25 :: Desc where
  "iqAirP25 = NewDesc (BuildFQName namespace [] ''p25'') ''p2.5 particulate reading.''"

definition iqAirP10 :: Desc where
  "iqAirP10 = NewDesc (BuildFQName namespace [] ''p10'') ''p10 particulate reading.''"

definition iqAirTemp :: Desc where
  "iqAirTemp = NewDesc (BuildFQName namespace [] ''temperature'') ''Temperature reading in Celsius.''"

definition iqAirHumidity :: Desc where
  "iqAirHumidity = NewDesc (BuildFQName namespace [] ''humidity'') ''Humidity reading.''"

text \<open>
  \<^verbatim>\<open>
  type Exporter struct {
      URI   string
      mutex sync.RWMutex
      totalScrapes, jsonParseFailures prometheus.Counter
      logger                          log.Logger
  }
  \<close>
  The mutex is its write-locked flag: one thread of control is modelled, so a
  \<^verbatim>\<open>Lock()\<close> on a held mutex never returns.
\<close>

record Exporter =
  URI :: string
  mutex :: bool
  totalScrapes :: Counter
  jsonParseFailures :: Counter
  logger :: Logger

text \<open>
  NewExporter returns a pointer and an error; None stands for nil in both places.
  The timeout argument does not occur in the body.
\<close>

definition NewExporter :: "string \<Rightarrow> int \<Rightarrow> Logger \<Rightarrow> Exporter option \<times> string option" where
  "NewExporter uri timeout lg =
     (Some \<lparr>URI = uri, mutex = False,
            totalScrapes = NewCounter \<lparr>Namespace = namespace, Subsystem = [],
                                       Name = ''exporter_scrapes_total'',
                                       Help = ''Current total iqAir scrapes.''\<rparr>,
            jsonParseFailures = NewCounter \<lparr>Namespace = namespace, Subsystem = [],
                                            Name = ''exporter_json_parse_failures_total'',
                                            Help = ''Number of errors while parsing JSON.''\<rparr>,
            logger = lg\<rparr>,
      None)"

text \<open>Describe: the descriptors sent on the channel, in order.\<close>

definition Describe :: "Exporter \<Rightarrow> Desc list" where
  "Describe e = [iqAirUp, counter_desc (totalScrapes e), counter_desc (jsonParseFailures e)]"

text \<open>
  scrape: the exporter as it is left, and the pair \<open>(up, result)\<close> returned, \<open>result\<close>
  being a pointer (None for nil); no pair when \<^verbatim>\<open>http.Get\<close> never returns.
\<close>

definition scrape :: "Exporter \<Rightarrow> (string \<Rightarrow> upstream) \<Rightarrow> Exporter \<times> (rat \<times> APIData option) option" where
  "scrape e net =
     (let e1 = e\<lparr>totalScrapes := Counter_Inc (totalScrapes e)\<rparr>
      in case http_Get net (URI e1) of
           None \<Rightarrow> (e1, None)
         | Some (Inl msg) \<Rightarrow>
             (e1\<lparr>logger := Log (logger e1) [LogString ''failed to scrape: %v'', LogError (HTTPError msg)]\<rparr>,
              Some (0, None))
         | Some (Inr resp) \<Rightarrow>
             (case ReadAll (RespBody resp) of
                Inl msg \<Rightarrow>
                  (e1\<lparr>logger := Log (logger e1) [LogString ''failed to read body: %v'', LogError (ReadError msg)]\<rparr>,
                   Some (0, None))
              | Inr body \<Rightarrow>
                  (let parsed = zero_APIResponse;
                       e2 = e1\<lparr>logger := Log (logger e1) [LogString ''parsed: %v'', LogResponse parsed]\<rparr>
                   in case snd (Unmarshal body parsed) of
                        Some jerr \<Rightarrow>
                          (e2\<lparr>logger := Log (logger e2)
                                           [LogString ''failed to parse body: %v'', LogError (JSONError jerr)]\<rparr>,
                           Some (0, None))
                      | None \<Rightarrow> (e2, Some (1, Some (Current (fst (Unmarshal body parsed))))))))"

text \<open>
  How a call ends: it returns, it panics, or it never returns. The sends of Collect
  happen in order; evaluating the operand of a send may panic, and then the sends
  before it have happened and the ones after have not.
\<close>

datatype completion = Returned | Panicked string | Blocked

fun send_all :: "(string + Metric) list \<Rightarrow> Metric list \<Rightarrow> Metric list \<times> completion" where
  "send_all [] ch = (ch, Returned)"
| "send_all (Inl p # rest) ch = (ch, Panicked p)"
| "send_all (Inr m # rest) ch = send_all rest (ch @ [m])"

text \<open>Reading a field through the pointer \<open>result\<close>.\<close>

definition field_of :: "APIData option \<Rightarrow> (APIData \<Rightarrow> 'a) \<Rightarrow> string + 'a" where
  "field_of result f =
     (case result of
        None \<Rightarrow> Inl ''runtime error: invalid memory address or nil pointer dereference''
      | Some d \<Rightarrow> Inr (f d))"

definition gauge_of :: "Desc \<Rightarrow> string + rat \<Rightarrow> string + Metric" where
  "gauge_of d v = (case v of Inl p \<Rightarrow> Inl p | Inr x \<Rightarrow> MustNewConstMetric d GaugeValue x)"

text \<open>
  Collect: the exporter as it is left, the metrics sent on the channel, and how the
  call ended. The deferred Unlock runs on return and on panic.
\<close>

definition Collect :: "Exporter \<Rightarrow> (string \<Rightarrow> upstream) \<Rightarrow> Exporter \<times> Metric list \<times> completion" where
  "Collect e net =
     (if mutex e then (e, [], Blocked)
      else
        (case scrape (e\<lparr>mutex := True\<rparr>) net of
           (e', None) \<Rightarrow> (e', [], Blocked)
         | (e', Some (up, result)) \<Rightarrow>
             (case send_all
                     [Inr (Counter_Metric (totalScrapes e')),
                      Inr (Counter_Metric (jsonParseFailures e')),
                      MustNewConstMetric iqAirUp GaugeValue up,
                      gauge_of iqAirCO2 (map_sum id float64_of_int (field_of result CO2)),
                      gauge_of iqAirP25 (map_sum id float64_of_int (field_of result P25)),
                      gauge_of iqAirP10 (map_sum id float64_of_int (field_of result P10)),
                      gauge_of iqAirTemp (field_of result Temperature),
                      gauge_of iqAirHumidity (map_sum id float64_of_int (field_of result Humidity))]
                     []
              of (ch, c) \<Rightarrow> (e'\<lparr>mutex := False\<rparr>, ch, c))))"

section \<open>Notation and examples for the statements\<close>

abbreviation gauge :: "Desc \<Rightarrow> rat \<Rightarrow> Metric" where
  "gauge d v \<equiv> \<lparr>metric_desc = d, metric_type = GaugeValue, metric_value = v\<rparr>"

abbreviation nil_dereference :: string where
  "nil_dereference \<equiv> ''runtime error: invalid memory address or nil pointer dereference''"

text \<open>The envelope of the device API with its members in the order of the documentation.\<close>

definition envelope :: "numlit \<Rightarrow> numlit \<Rightarrow> numlit \<Rightarrow> numlit \<Rightarrow> numlit \<Rightarrow> json" where
  "envelope co p2 p1 tp hm =
     JObject [(''current'',
       JObject [(''co'', JNumber co), (''p2'', JNumber p2), (''p1'', JNumber p1),
                (''tp'', JNumber tp), (''hm'', JNumber hm)])]"

text \<open>An exporter as \<^verbatim>\<open>main\<close> builds it, with the 10 second timeout, and a logger that has logged nothing.\<close>

definition monitor :: Exporter where
  "monitor = the (fst (NewExporter ''http://airvisual.local/node'' 10000000000 []))"

text \<open>The example body of the device API, and one whose CO2 reading is \<open>2 ^ 53 + 1\<close>.\<close>

definition example_body :: string where
  \<open>example_body = ''{"current":{"co":410,"p2":5,"p1":12,"tp":21.5,"hm":40}}''\<close>

definition large_co_body :: string where
  \<open>large_co_body = ''{"current":{"co":9007199254740993,"p2":5,"p1":12,"tp":21.5,"hm":40}}''\<close>

text \<open>
  An integer literal (no fraction, no exponent) whose value is an int64, one of
  magnitude at most \<open>2 ^ 53\<close>, and a literal whose nearest double is finite.
\<close>

definition int64_literal :: "numlit \<Rightarrow> bool" where
  "int64_literal l \<longleftrightarrow>
     lit_frac l = None \<and> lit_exp l = None
     \<and> - (2 ^ 63) \<le> (if lit_neg l then - lit_digits l else lit_digits l)
     \<and> (if lit_neg l then - lit_digits l else lit_digits l) < 2 ^ 63"

definition exact_integer_literal :: "numlit \<Rightarrow> bool" where
  "exact_integer_literal l \<longleftrightarrow> lit_frac l = None \<and> lit_exp l = None \<and> \<bar>lit_digits l\<bar> \<le> 2 ^ 53"

definition finite_literal :: "numlit \<Rightarrow> bool" where
  "finite_literal l \<longleftrightarrow> \<bar>nearest_float64 (lit_value l)\<bar> < 2 ^ 1024"

text \<open>
  The reading a scrape gets out of an upstream: there is one when the GET returned a
  response (of any status code), its body was read and the body decoded without error.
\<close>

definition decoded_reading :: "upstream \<Rightarrow> APIData option" where
  "decoded_reading u =
     (case u of
        Reply delay resp \<Rightarrow>
          (case RespBody resp of
             Body body \<Rightarrow>
               (case snd (Unmarshal body zero_APIResponse) of
                  None \<Rightarrow> Some (Current (fst (Unmarshal body zero_APIResponse)))
                | Some jerr \<Rightarrow> None)
           | ReadFails msg \<Rightarrow> None)
      | _ \<Rightarrow> None)"

text \<open>
  A member of the reading object that decodes: one of the four integer keys with a
  literal ParseInt accepts, or the temperature key with a literal ParseFloat accepts.
\<close>

definition reading_member :: "string \<times> json \<Rightarrow> bool" where
  "reading_member m \<longleftrightarrow>
     (\<exists>l. snd m = JNumber l \<and>
        ((fst m = ''co'' \<or> fst m = ''p2'' \<or> fst m = ''p1'' \<or> fst m = ''hm'') \<and> ParseInt l \<noteq> None
         \<or> fst m = ''tp'' \<and> ParseFloat l \<noteq> None))"

section \<open>Facts about the rounding\<close>

lemma round_half_even_of_int: "round_half_even (of_int j) = j"
  by (simp add: round_half_even_def)

lemma ilog2_bracket:
  assumes "0 < x" and pq: "quotient_of x = (p, q)"
  defines "a \<equiv> int (floorlog 2 (nat p)) - int (floorlog 2 (nat q))"
  shows "power_int 2 (a - 1) < x" and "x < power_int 2 (a + 1)"
proof -
  have q: "0 < q" using pq by (rule quotient_of_denom_pos)
  have x: "x = of_int p / of_int q" using pq by (rule quotient_of_div)
  have p: "0 < p"
    using assms(1) q unfolding x by (simp add: zero_less_divide_iff)
  define bp where "bp = floorlog 2 (nat p)"
  define bq where "bq = floorlog 2 (nat q)"
  have "2 ^ (bp - 1) \<le> nat p" "nat p < 2 ^ bp" "2 ^ (bq - 1) \<le> nat q" "nat q < 2 ^ bq"
    using floorlog_bounds[of "nat p" 2] floorlog_bounds[of "nat q" 2] p q
    by (simp_all add: bp_def bq_def)
  then have "int (2 ^ (bp - 1)) \<le> p" "p < int (2 ^ bp)" "int (2 ^ (bq - 1)) \<le> q" "q < int (2 ^ bq)"
    using p q by linarith+
  then have "(of_int (int (2 ^ (bp - 1))) :: rat) \<le> of_int p" "(of_int p :: rat) < of_int (int (2 ^ bp))"
    "(of_int (int (2 ^ (bq - 1))) :: rat) \<le> of_int q" "(of_int q :: rat) < of_int (int (2 ^ bq))"
    by (simp_all only: of_int_le_iff of_int_less_iff)
  then have b: "(2::rat) ^ (bp - 1) \<le> of_int p" "(of_int p :: rat) < 2 ^ bp"
    "(2::rat) ^ (bq - 1) \<le> of_int q" "(of_int q :: rat) < 2 ^ bq"
    by simp_all
  have bp1: "1 \<le> bp" and bq1: "1 \<le> bq"
    using p q by (simp_all add: bp_def bq_def floorlog_def)
  have "(2::rat) ^ (bp - 1) / 2 ^ bq < of_int p / of_int q"
    using b q by (intro frac_less2) simp_all
  moreover have "power_int (2::rat) (a - 1) = 2 ^ (bp - 1) / 2 ^ bq"
  proof -
    have "a - 1 = int (bp - 1) - int bq" using bp1 by (simp add: a_def bp_def bq_def)
    then show ?thesis by (simp add: power_int_diff)
  qed
  ultimately show "power_int 2 (a - 1) < x" by (simp add: x)
  have "of_int p / of_int q < (2::rat) ^ bp / 2 ^ (bq - 1)"
    using b p by (intro frac_less) simp_all
  moreover have "power_int (2::rat) (a + 1) = 2 ^ bp / 2 ^ (bq - 1)"
  proof -
    have "a + 1 = int bp - int (bq - 1)" using bq1 by (simp add: a_def bp_def bq_def)
    then show ?thesis by (simp add: power_int_diff)
  qed
  ultimately show "x < power_int 2 (a + 1)" by (simp add: x)
qed

lemma power_int_2_less_cancel: "power_int (2::rat) m < power_int 2 n \<Longrightarrow> m < n"
  by (rule ccontr) (use power_int_increasing[of n m "2::rat"] in simp)

lemma ilog2_eqI:
  assumes "0 < x" "power_int 2 e \<le> x" "x < power_int 2 (e + 1)"
  shows "ilog2 x = e"
proof -
  obtain p q where pq: "quotient_of x = (p, q)" by (cases "quotient_of x")
  define a where "a = int (floorlog 2 (nat p)) - int (floorlog 2 (nat q))"
  note br = ilog2_bracket[OF assms(1) pq, folded a_def]
  have il: "ilog2 x = (if power_int 2 a \<le> x then a else a - 1)"
    by (simp add: ilog2_def pq a_def Let_def)
  show ?thesis
  proof (cases "power_int 2 a \<le> x")
    case True
    then have "power_int (2::rat) a < power_int 2 (e + 1)" using assms(3) by simp
    then have "a < e + 1" by (rule power_int_2_less_cancel)
    moreover have "power_int (2::rat) e < power_int 2 (a + 1)" using assms(2) br(2) by simp
    then have "e < a + 1" by (rule power_int_2_less_cancel)
    ultimately show ?thesis using True il by simp
  next
    case False
    then have "power_int (2::rat) e < power_int 2 a" using assms(2) by simp
    then have "e < a" by (rule power_int_2_less_cancel)
    moreover have "power_int (2::rat) (a - 1) < power_int 2 (e + 1)" using assms(3) br(1) by simp
    then have "a - 1 < e + 1" by (rule power_int_2_less_cancel)
    ultimately show ?thesis using False il by simp
  qed
qed

lemma ilog2_le:
  assumes "0 < x" "x < power_int 2 (e + 1)"
  shows "ilog2 x \<le> e"
proof -
  obtain p q where pq: "quotient_of x = (p, q)" by (cases "quotient_of x")
  define a where "a = int (floorlog 2 (nat p)) - int (floorlog 2 (nat q))"
  note br = ilog2_bracket[OF assms(1) pq, folded a_def]
  have il: "ilog2 x = (if power_int 2 a \<le> x then a else a - 1)"
    by (simp add: ilog2_def pq a_def Let_def)
  show ?thesis
  proof (cases "power_int 2 a \<le> x")
    case True
    then have "power_int (2::rat) a < power_int 2 (e + 1)" using assms(2) by simp
    then have "a < e + 1" by (rule power_int_2_less_cancel)
    then show ?thesis using True il by simp
  next
    case False
    have "power_int (2::rat) (a - 1) < power_int 2 (e + 1)" using assms(2) br(1) by simp
    then have "a - 1 < e + 1" by (rule power_int_2_less_cancel)
    then show ?thesis using False il by simp
  qed
qed

text \<open>A number with at most 53 significant bits and an exponent in range is a double.\<close>

lemma nearest_float64_representable:
  assumes m: "\<bar>m\<bar> < 2 ^ 53" and k: "- 1074 \<le> k"
  shows "nearest_float64 (of_int m * power_int 2 k) = of_int m * power_int 2 k"
proof (cases "m = 0")
  case True
  then show ?thesis by (simp add: nearest_float64_def)
next
  case False
  define x :: rat where "x = of_int m * power_int 2 k"
  have pos: "0 < power_int (2::rat) k" by (simp add: zero_less_power_int)
  have ax: "\<bar>x\<bar> = of_int \<bar>m\<bar> * power_int 2 k"
    using pos by (simp add: x_def abs_mult)
  have x0: "0 < \<bar>x\<bar>" using False pos by (simp add: x_def)
  have "(of_int \<bar>m\<bar> :: rat) < of_int (2 ^ 53)" using m by (simp only: of_int_less_iff)
  then have "(of_int \<bar>m\<bar> :: rat) < power_int 2 53" by simp
  then have "\<bar>x\<bar> < power_int 2 53 * power_int 2 k"
    unfolding ax using pos by (rule mult_strict_right_mono)
  also have "\<dots> = power_int 2 ((k + 52) + 1)"
    by (simp add: power_int_add add.commute)
  finally have "ilog2 \<bar>x\<bar> \<le> k + 52" by (rule ilog2_le[OF x0])
  define j where "j = max (ilog2 \<bar>x\<bar> - 52) (- 1074)"
  have jk: "j \<le> k" using \<open>ilog2 \<bar>x\<bar> \<le> k + 52\<close> k by (simp add: j_def)
  have split: "power_int (2::rat) k = power_int 2 j * 2 ^ nat (k - j)"
  proof -
    have "power_int (2::rat) k = power_int 2 (j + int (nat (k - j)))" using jk by simp
    also have "\<dots> = power_int 2 j * power_int 2 (int (nat (k - j)))"
      by (rule power_int_add) simp
    finally show ?thesis by (simp only: power_int_of_nat)
  qed
  have nz: "power_int (2::rat) j \<noteq> 0" by simp
  have "x / power_int 2 j = of_int (m * 2 ^ nat (k - j))"
    using nz by (simp add: x_def split)
  then have "round_half_even (x / power_int 2 j) = m * 2 ^ nat (k - j)"
    by (simp only: round_half_even_of_int)
  then have "of_int (round_half_even (x / power_int 2 j)) * power_int 2 j = x"
    by (simp add: x_def split)
  moreover have "x \<noteq> 0" using x0 by simp
  ultimately show ?thesis
    unfolding x_def[symmetric] by (simp add: nearest_float64_def Let_def j_def)
qed

lemma float64_of_int_exact:
  assumes "\<bar>n\<bar> \<le> 2 ^ 53"
  shows "float64_of_int n = of_int n"
proof (cases "\<bar>n\<bar> < 2 ^ 53")
  case True
  from nearest_float64_representable[OF True, of 0] show ?thesis
    by (simp add: float64_of_int_def)
next
  case False
  with assms have n: "n = 2 * 2 ^ 52 \<or> n = 2 * (- (2 ^ 52))" by simp linarith
  have "nearest_float64 (of_int (2 ^ 52) * power_int 2 1) = of_int (2 ^ 52) * power_int 2 1"
    "nearest_float64 (of_int (- (2 ^ 52)) * power_int 2 1) = of_int (- (2 ^ 52)) * power_int 2 1"
    by (rule nearest_float64_representable; simp)+
  with n show ?thesis
    by (auto simp: float64_of_int_def)
qed

lemma float64_of_int_rounds: "float64_of_int 9007199254740993 = 9007199254740992"
proof -
  have "ilog2 (9007199254740993::rat) = 53"
    by (rule ilog2_eqI) simp_all
  moreover have "\<lfloor>9007199254740993 / 2 :: rat\<rfloor> = 4503599627370496"
    by (rule floor_unique) simp_all
  ultimately show ?thesis
    by (simp add: float64_of_int_def nearest_float64_def round_half_even_def Let_def)
qed

lemma ParseInt_value: "ParseInt l = Some v \<Longrightarrow> lit_value l = of_int v"
  by (auto simp: ParseInt_def lit_value_def Let_def split: if_splits)

section \<open>Facts about decoding, scrape and Collect\<close>

lemma descs_valid:
  "desc_err iqAirUp = None" "desc_err iqAirCO2 = None" "desc_err iqAirP25 = None"
  "desc_err iqAirP10 = None" "desc_err iqAirTemp = None" "desc_err iqAirHumidity = None"
  by code_simp+

lemma fold_name_tags:
  "fold_name ''current'' = ''current''" "fold_name ''co'' = ''co''" "fold_name ''p2'' = ''p2''"
  "fold_name ''p1'' = ''p1''" "fold_name ''tp'' = ''tp''" "fold_name ''hm'' = ''hm''"
  by code_simp+

lemma scrape_Unreachable:
  assumes "net (URI e) = Unreachable msg"
  shows "scrape e net =
    (e\<lparr>totalScrapes := Counter_Inc (totalScrapes e),
       logger := Log (logger e) [LogString ''failed to scrape: %v'', LogError (HTTPError msg)]\<rparr>,
     Some (0, None))"
  using assms by (simp add: scrape_def http_Get_def Client_Get_def DefaultClient_def Let_def)

lemma scrape_NoReply:
  assumes "net (URI e) = NoReply"
  shows "scrape e net = (e\<lparr>totalScrapes := Counter_Inc (totalScrapes e)\<rparr>, None)"
  using assms by (simp add: scrape_def http_Get_def Client_Get_def DefaultClient_def Let_def)

lemma scrape_ReadFails:
  assumes "net (URI e) = Reply delay resp" "RespBody resp = ReadFails msg"
  shows "scrape e net =
    (e\<lparr>totalScrapes := Counter_Inc (totalScrapes e),
       logger := Log (logger e) [LogString ''failed to read body: %v'', LogError (ReadError msg)]\<rparr>,
     Some (0, None))"
  using assms by (simp add: scrape_def http_Get_def Client_Get_def DefaultClient_def ReadAll_def Let_def)

lemma scrape_decode_error:
  assumes "net (URI e) = Reply delay resp" "RespBody resp = Body body"
    and "snd (Unmarshal body zero_APIResponse) = Some jerr"
  shows "scrape e net =
    (e\<lparr>totalScrapes := Counter_Inc (totalScrapes e),
       logger := Log (Log (logger e) [LogString ''parsed: %v'', LogResponse zero_APIResponse])
                   [LogString ''failed to parse body: %v'', LogError (JSONError jerr)]\<rparr>,
     Some (0, None))"
  using assms by (simp add: scrape_def http_Get_def Client_Get_def DefaultClient_def ReadAll_def Let_def)

lemma scrape_decoded:
  assumes "net (URI e) = Reply delay resp" "RespBody resp = Body body"
    and "snd (Unmarshal body zero_APIResponse) = None"
  shows "scrape e net =
    (e\<lparr>totalScrapes := Counter_Inc (totalScrapes e),
       logger := Log (logger e) [LogString ''parsed: %v'', LogResponse zero_APIResponse]\<rparr>,
     Some (1, Some (Current (fst (Unmarshal body zero_APIResponse)))))"
  using assms by (simp add: scrape_def http_Get_def Client_Get_def DefaultClient_def ReadAll_def Let_def)

lemma Collect_nil_result:
  assumes "\<not> mutex e" "scrape (e\<lparr>mutex := True\<rparr>) net = (e', Some (up, None))"
  shows "Collect e net =
    (e'\<lparr>mutex := False\<rparr>,
     [Counter_Metric (totalScrapes e'), Counter_Metric (jsonParseFailures e'), gauge iqAirUp up],
     Panicked nil_dereference)"
  using assms
  by (simp add: Collect_def MustNewConstMetric_def descs_valid gauge_of_def field_of_def)

lemma Collect_result:
  assumes "\<not> mutex e" "scrape (e\<lparr>mutex := True\<rparr>) net = (e', Some (up, Some d))"
  shows "Collect e net =
    (e'\<lparr>mutex := False\<rparr>,
     [Counter_Metric (totalScrapes e'), Counter_Metric (jsonParseFailures e'), gauge iqAirUp up,
      gauge iqAirCO2 (float64_of_int (CO2 d)), gauge iqAirP25 (float64_of_int (P25 d)),
      gauge iqAirP10 (float64_of_int (P10 d)), gauge iqAirTemp (Temperature d),
      gauge iqAirHumidity (float64_of_int (Humidity d))],
     Returned)"
  using assms
  by (simp add: Collect_def MustNewConstMetric_def descs_valid gauge_of_def field_of_def)

lemma Collect_blocked:
  assumes "\<not> mutex e" "scrape (e\<lparr>mutex := True\<rparr>) net = (e', None)"
  shows "Collect e net = (e', [], Blocked)"
  using assms by (simp add: Collect_def)

lemma parse_json_empty_object: "parse_json ''{}'' = Some (JObject [])"
  by code_simp

lemma Unmarshal_empty_object: "Unmarshal ''{}'' zero_APIResponse = (zero_APIResponse, None)"
  by (simp add: Unmarshal_def parse_json_empty_object)

lemma value_APIResponse_envelope:
  assumes "ParseInt co = Some vco" "ParseInt p2 = Some vp2" "ParseInt p1 = Some vp1"
    "ParseFloat tp = Some vtp" "ParseInt hm = Some vhm"
  shows "value_APIResponse (envelope co p2 p1 tp hm) (zero_APIResponse, None) =
    (\<lparr>Current = \<lparr>CO2 = vco, P25 = vp2, P10 = vp1, Temperature = vtp, Humidity = vhm\<rparr>\<rparr>, None)"
  using assms
  by (simp add: envelope_def member_APIResponse_def member_APIData_def fold_name_tags
      saveError_def zero_APIResponse_def zero_APIData_def)

lemma Counter_Metric_desc [simp]:
  "metric_desc (Counter_Metric c) = counter_desc c"
  "counter_desc (Counter_Inc c) = counter_desc c"
  by (simp_all add: Counter_Metric_def Counter_Inc_def)

lemma Current_zero: "Current zero_APIResponse = zero_APIData"
  by (simp add: zero_APIResponse_def)

lemma ParseInt_exact:
  assumes "exact_integer_literal l"
  shows "\<exists>v. ParseInt l = Some v \<and> \<bar>v\<bar> \<le> 2 ^ 53 \<and> lit_value l = of_int v"
proof -
  from assms have "\<bar>lit_digits l\<bar> \<le> 9007199254740992" "lit_frac l = None" "lit_exp l = None"
    by (simp_all add: exact_integer_literal_def)
  then show ?thesis
    by (cases "lit_neg l") (simp_all add: ParseInt_def Let_def lit_value_def, arith+)
qed

lemma ParseFloat_finite:
  "finite_literal l \<Longrightarrow> ParseFloat l = Some (nearest_float64 (lit_value l))"
  by (simp add: ParseFloat_def finite_literal_def Let_def)

lemma nearest_float64_21_5: "nearest_float64 (43 / 2) = 43 / 2"
  using nearest_float64_representable[of 43 "- 1"] by simp

lemma lit_value_21_5: "lit_value (NumLit False 215 (Some 1) None) = 43 / 2"
  by (simp add: lit_value_def)

lemma finite_literal_21_5: "finite_literal (NumLit False 215 (Some 1) None)"
  by (simp only: finite_literal_def lit_value_21_5 nearest_float64_21_5) simp

lemma parse_json_example_body:
  "parse_json example_body =
     Some (envelope (NumLit False 410 None None) (NumLit False 5 None None) (NumLit False 12 None None)
             (NumLit False 215 (Some 1) None) (NumLit False 40 None None))"
  by code_simp

lemma parse_json_large_co_body:
  "parse_json large_co_body =
     Some (envelope (NumLit False 9007199254740993 None None) (NumLit False 5 None None)
             (NumLit False 12 None None) (NumLit False 215 (Some 1) None) (NumLit False 40 None None))"
  by code_simp

lemma Unmarshal_envelope:
  assumes "parse_json body = Some (envelope co p2 p1 tp hm)"
    and "ParseInt co = Some vco" "ParseInt p2 = Some vp2" "ParseInt p1 = Some vp1"
    and "ParseFloat tp = Some vtp" "ParseInt hm = Some vhm"
  shows "Unmarshal body zero_APIResponse =
    (\<lparr>Current = \<lparr>CO2 = vco, P25 = vp2, P10 = vp1, Temperature = vtp, Humidity = vhm\<rparr>\<rparr>, None)"
  using value_APIResponse_envelope[OF assms(2-6)] assms(1) by (simp add: Unmarshal_def)

lemma Collect_decoded:
  assumes "\<not> mutex e" and "net (URI e) = Reply delay resp" "RespBody resp = Body body"
    and "Unmarshal body zero_APIResponse = (\<lparr>Current = d\<rparr>, None)"
  shows "Collect e net =
    (e\<lparr>mutex := False, totalScrapes := Counter_Inc (totalScrapes e),
       logger := Log (logger e) [LogString ''parsed: %v'', LogResponse zero_APIResponse]\<rparr>,
     [Counter_Metric (Counter_Inc (totalScrapes e)), Counter_Metric (jsonParseFailures e), gauge iqAirUp 1,
      gauge iqAirCO2 (float64_of_int (CO2 d)), gauge iqAirP25 (float64_of_int (P25 d)),
      gauge iqAirP10 (float64_of_int (P10 d)), gauge iqAirTemp (Temperature d),
      gauge iqAirHumidity (float64_of_int (Humidity d))],
     Returned)"
proof -
  have "scrape (e\<lparr>mutex := True\<rparr>) net =
    (e\<lparr>mutex := True, totalScrapes := Counter_Inc (totalScrapes e),
       logger := Log (logger e) [LogString ''parsed: %v'', LogResponse zero_APIResponse]\<rparr>,
     Some (1, Some d))"
    using scrape_decoded[of net "e\<lparr>mutex := True\<rparr>" delay resp body] assms(2,3,4) by simp
  from Collect_result[OF assms(1) this] show ?thesis by simp
qed

text \<open>The members of the reading object may come in any order.\<close>

lemma member_APIData_reading:
  assumes "reading_member (k, JNumber l)"
  shows "member_APIData (d, None) (k, JNumber l) =
    (if k = ''co'' then d\<lparr>CO2 := the (ParseInt l)\<rparr>
     else if k = ''p2'' then d\<lparr>P25 := the (ParseInt l)\<rparr>
     else if k = ''p1'' then d\<lparr>P10 := the (ParseInt l)\<rparr>
     else if k = ''tp'' then d\<lparr>Temperature := the (ParseFloat l)\<rparr>
     else d\<lparr>Humidity := the (ParseInt l)\<rparr>, None)"
proof -
  from assms consider
    (co) n where "k = ''co''" "ParseInt l = Some n" | (p2) n where "k = ''p2''" "ParseInt l = Some n" |
    (p1) n where "k = ''p1''" "ParseInt l = Some n" | (hm) n where "k = ''hm''" "ParseInt l = Some n" |
    (tp) x where "k = ''tp''" "ParseFloat l = Some x"
    unfolding reading_member_def fst_conv snd_conv by blast
  then show ?thesis
  proof cases
    case co
    then show ?thesis by (simp add: member_APIData_def fold_name_tags saveError_def)
  next
    case p2
    then show ?thesis by (simp add: member_APIData_def fold_name_tags saveError_def)
  next
    case p1
    then show ?thesis by (simp add: member_APIData_def fold_name_tags saveError_def)
  next
    case hm
    then show ?thesis by (simp add: member_APIData_def fold_name_tags saveError_def)
  next
    case tp
    then show ?thesis by (simp add: member_APIData_def fold_name_tags saveError_def)
  qed
qed

lemma foldl_member_APIData:
  assumes "distinct (map fst ms)" and "\<forall>m\<in>set ms. reading_member m"
  shows "snd (foldl member_APIData (d, None) ms) = None
    \<and> (\<forall>l. (''co'', JNumber l) \<in> set ms \<longrightarrow> CO2 (fst (foldl member_APIData (d, None) ms)) = the (ParseInt l))
    \<and> (\<forall>l. (''p2'', JNumber l) \<in> set ms \<longrightarrow> P25 (fst (foldl member_APIData (d, None) ms)) = the (ParseInt l))
    \<and> (\<forall>l. (''p1'', JNumber l) \<in> set ms \<longrightarrow> P10 (fst (foldl member_APIData (d, None) ms)) = the (ParseInt l))
    \<and> (\<forall>l. (''tp'', JNumber l) \<in> set ms \<longrightarrow> Temperature (fst (foldl member_APIData (d, None) ms)) = the (ParseFloat l))
    \<and> (\<forall>l. (''hm'', JNumber l) \<in> set ms \<longrightarrow> Humidity (fst (foldl member_APIData (d, None) ms)) = the (ParseInt l))"
  using assms
proof (induction ms rule: rev_induct)
  case Nil
  then show ?case by simp
next
  case (snoc m ms)
  obtain k v where m: "m = (k, v)" by (cases m)
  from snoc.prems have rm: "reading_member (k, v)" by (simp add: m)
  then obtain l where v: "v = JNumber l" by (auto simp: reading_member_def)
  from snoc.prems have fresh: "k \<notin> fst ` set ms" and dist: "distinct (map fst ms)"
    and ok: "\<forall>m\<in>set ms. reading_member m"
    by (auto simp: m)
  note IH = snoc.IH[OF dist ok]
  obtain d' where d': "foldl member_APIData (d, None) ms = (d', None)"
    using IH by (cases "foldl member_APIData (d, None) ms") auto
  have step: "foldl member_APIData (d, None) (ms @ [m]) = member_APIData (d', None) (k, JNumber l)"
    by (simp add: d' m v)
  have nk: "\<And>j. (k, j) \<notin> set ms" using fresh by force
  from IH d' have f: "\<forall>l. (''co'', JNumber l) \<in> set ms \<longrightarrow> CO2 d' = the (ParseInt l)"
    "\<forall>l. (''p2'', JNumber l) \<in> set ms \<longrightarrow> P25 d' = the (ParseInt l)"
    "\<forall>l. (''p1'', JNumber l) \<in> set ms \<longrightarrow> P10 d' = the (ParseInt l)"
    "\<forall>l. (''tp'', JNumber l) \<in> set ms \<longrightarrow> Temperature d' = the (ParseFloat l)"
    "\<forall>l. (''hm'', JNumber l) \<in> set ms \<longrightarrow> Humidity d' = the (ParseInt l)"
    by simp_all
  from rm have "k = ''co'' \<or> k = ''p2'' \<or> k = ''p1'' \<or> k = ''tp'' \<or> k = ''hm''"
    by (auto simp: reading_member_def)
  then show ?case
  proof (elim disjE)
    assume k: "k = ''co''"
    have res: "foldl member_APIData (d, None) (ms @ [m]) = (d'\<lparr>CO2 := the (ParseInt l)\<rparr>, None)"
      unfolding step member_APIData_reading[OF rm[unfolded v]] by (simp add: k)
    have "\<And>j. (''co'', j) \<notin> set ms" using nk by (simp add: k)
    then show ?case
      unfolding res using f by (simp add: m v k)
  next
    assume k: "k = ''p2''"
    have res: "foldl member_APIData (d, None) (ms @ [m]) = (d'\<lparr>P25 := the (ParseInt l)\<rparr>, None)"
      unfolding step member_APIData_reading[OF rm[unfolded v]] by (simp add: k)
    have "\<And>j. (''p2'', j) \<notin> set ms" using nk by (simp add: k)
    then show ?case
      unfolding res using f by (simp add: m v k)
  next
    assume k: "k = ''p1''"
    have res: "foldl member_APIData (d, None) (ms @ [m]) = (d'\<lparr>P10 := the (ParseInt l)\<rparr>, None)"
      unfolding step member_APIData_reading[OF rm[unfolded v]] by (simp add: k)
    have "\<And>j. (''p1'', j) \<notin> set ms" using nk by (simp add: k)
    then show ?case
      unfolding res using f by (simp add: m v k)
  next
    assume k: "k = ''tp''"
    have res: "foldl member_APIData (d, None) (ms @ [m]) = (d'\<lparr>Temperature := the (ParseFloat l)\<rparr>, None)"
      unfolding step member_APIData_reading[OF rm[unfolded v]] by (simp add: k)
    have "\<And>j. (''tp'', j) \<notin> set ms" using nk by (simp add: k)
    then show ?case
      unfolding res using f by (simp add: m v k)
  next
    assume k: "k = ''hm''"
    have res: "foldl member_APIData (d, None) (ms @ [m]) = (d'\<lparr>Humidity := the (ParseInt l)\<rparr>, None)"
      unfolding step member_APIData_reading[OF rm[unfolded v]] by (simp add: k)
    have "\<And>j. (''hm'', j) \<notin> set ms" using nk by (simp add: k)
    then show ?case
      unfolding res using f by (simp add: m v k)
  qed
qed

lemma Unmarshal_reading_object:
  assumes "parse_json body = Some (JObject [(''current'', JObject ms)])"
    and "distinct (map fst ms)" and "\<forall>m\<in>set ms. reading_member m"
  shows "Unmarshal body zero_APIResponse =
    (\<lparr>Current = fst (foldl member_APIData (zero_APIData, None) ms)\<rparr>, None)"
proof -
  from foldl_member_APIData[OF assms(2,3), of zero_APIData]
  have "snd (foldl member_APIData (zero_APIData, None) ms) = None" by blast
  then show ?thesis
    using assms(1)
    by (simp add: Unmarshal_def member_APIResponse_def fold_name_tags zero_APIResponse_def)
qed

lemma ParseInt_int64:
  assumes "int64_literal l"
  shows "\<exists>v. ParseInt l = Some v \<and> lit_value l = of_int v"
  using assms
  by (cases "lit_neg l") (simp_all add: int64_literal_def ParseInt_def Let_def lit_value_def)

lemma exact_integer_literal_value:
  assumes "exact_integer_literal l"
  shows "nearest_float64 (lit_value l) = lit_value l"
proof -
  from ParseInt_exact[OF assms] obtain v where
    v: "\<bar>v\<bar> \<le> 2 ^ 53" "lit_value l = of_int v" by blast
  from float64_of_int_exact[OF v(1)] show ?thesis
    by (simp add: v(2) float64_of_int_def)
qed

lemma Unmarshal_example_body:
  "Unmarshal example_body zero_APIResponse =
     (\<lparr>Current = \<lparr>CO2 = 410, P25 = 5, P10 = 12, Temperature = 43 / 2, Humidity = 40\<rparr>\<rparr>, None)"
proof -
  have p: "ParseInt (NumLit False 410 None None) = Some 410"
    "ParseInt (NumLit False 5 None None) = Some 5" "ParseInt (NumLit False 12 None None) = Some 12"
    "ParseInt (NumLit False 40 None None) = Some 40"
    by (simp_all add: ParseInt_def)
  have t: "ParseFloat (NumLit False 215 (Some 1) None) = Some (43 / 2)"
    using ParseFloat_finite[OF finite_literal_21_5] by (simp only: lit_value_21_5 nearest_float64_21_5)
  show ?thesis
    by (rule Unmarshal_envelope[OF parse_json_example_body p(1,2,3) t p(4)])
qed

lemma float64_of_int_example:
  "float64_of_int 410 = 410" "float64_of_int 5 = 5" "float64_of_int 12 = 12" "float64_of_int 40 = 40"
  using float64_of_int_exact[of 410] float64_of_int_exact[of 5] float64_of_int_exact[of 12]
    float64_of_int_exact[of 40] by simp_all

section \<open>The claims\<close>

text \<open>
  C9. For every URI, timeout and logger, NewExporter returns a non-nil Exporter together
  with a nil error: construction never fails.
\<close>
theorem NewExporter_never_fails:
  "\<exists>e. NewExporter uri timeout lg = (Some e, None)"
  by (simp add: NewExporter_def)

text \<open>
  C3. Describe is claimed to send the descriptors of all eight metrics. For every
  exporter that NewExporter builds it sends three: the up indicator and the two counters.
  The descriptors of the five reading gauges (co2, p25, p10, temperature, humidity) are
  not among them, although Collect sends metrics of these descriptors and the comment on
  Describe says it describes all the metrics ever exported.
\<close>
theorem Describe_sends_three_descriptors:
  "map fqName (Describe (the (fst (NewExporter uri timeout lg)))) =
     [''iqair_up'', ''iqair_exporter_scrapes_total'', ''iqair_exporter_json_parse_failures_total'']
   \<and> iqAirCO2 \<notin> set (Describe (the (fst (NewExporter uri timeout lg))))
   \<and> iqAirP25 \<notin> set (Describe (the (fst (NewExporter uri timeout lg))))
   \<and> iqAirP10 \<notin> set (Describe (the (fst (NewExporter uri timeout lg))))
   \<and> iqAirTemp \<notin> set (Describe (the (fst (NewExporter uri timeout lg))))
   \<and> iqAirHumidity \<notin> set (Describe (the (fst (NewExporter uri timeout lg))))"
  by (simp add: Describe_def NewExporter_def NewCounter_def NewDesc_def BuildFQName_def namespace_def
      iqAirUp_def iqAirCO2_def iqAirP25_def iqAirP10_def iqAirTemp_def iqAirHumidity_def)

text \<open>
  C1. When the upstream GET fails, Collect is claimed to complete with up=0 and the
  five reading gauges at zero. On every exporter whose mutex is free, scrape counts the
  attempt, leaves jsonParseFailures as it is and returns \<open>(0, nil)\<close>; Collect then sends
  the two counters and up=0, and panics on \<^verbatim>\<open>result.CO2\<close>, a nil pointer dereference,
  before any of the five gauges is sent.
\<close>
theorem Collect_upstream_unreachable:
  assumes "\<not> mutex e" and "net (URI e) = Unreachable msg"
  shows "Collect e net =
    (e\<lparr>mutex := False,
       totalScrapes := Counter_Inc (totalScrapes e),
       logger := Log (logger e) [LogString ''failed to scrape: %v'', LogError (HTTPError msg)]\<rparr>,
     [Counter_Metric (Counter_Inc (totalScrapes e)), Counter_Metric (jsonParseFailures e),
      gauge iqAirUp 0],
     Panicked nil_dereference)"
proof -
  have "scrape (e\<lparr>mutex := True\<rparr>) net =
    (e\<lparr>mutex := True, totalScrapes := Counter_Inc (totalScrapes e),
       logger := Log (logger e) [LogString ''failed to scrape: %v'', LogError (HTTPError msg)]\<rparr>,
     Some (0, None))"
    using scrape_Unreachable[of net "e\<lparr>mutex := True\<rparr>" msg] assms(2) by simp
  from Collect_nil_result[OF assms(1) this] show ?thesis by simp
qed

theorem Collect_upstream_unreachable_witness:
  "\<not> mutex monitor
   \<and> (\<lambda>u. Unreachable ''connection refused'') (URI monitor) = Unreachable ''connection refused''
   \<and> snd (Collect monitor (\<lambda>u. Unreachable ''connection refused'')) =
       ([Counter_Metric (Counter_Inc (totalScrapes monitor)), Counter_Metric (jsonParseFailures monitor),
         gauge iqAirUp 0],
        Panicked nil_dereference)"
  using Collect_upstream_unreachable[of monitor "\<lambda>u. Unreachable ''connection refused''" "''connection refused''"]
  by (simp add: monitor_def NewExporter_def)

text \<open>
  C2. When the body does not decode, Collect is claimed to send up=0 and the five
  gauges at zero and to count a parse failure. On every exporter whose mutex is free,
  the attempt is counted, jsonParseFailures is left as it is (nothing in the program
  increments it), the two counters and up=0 are sent, and Collect panics on the nil
  \<open>result\<close> before any of the five gauges is sent.
\<close>
theorem Collect_malformed_body:
  assumes "\<not> mutex e" and "net (URI e) = Reply delay \<lparr>StatusCode = code, RespBody = Body body\<rparr>"
    and "snd (Unmarshal body zero_APIResponse) = Some jerr"
  shows "Collect e net =
    (e\<lparr>mutex := False,
       totalScrapes := Counter_Inc (totalScrapes e),
       logger := Log (Log (logger e) [LogString ''parsed: %v'', LogResponse zero_APIResponse])
                   [LogString ''failed to parse body: %v'', LogError (JSONError jerr)]\<rparr>,
     [Counter_Metric (Counter_Inc (totalScrapes e)), Counter_Metric (jsonParseFailures e),
      gauge iqAirUp 0],
     Panicked nil_dereference)"
proof -
  have "scrape (e\<lparr>mutex := True\<rparr>) net =
    (e\<lparr>mutex := True, totalScrapes := Counter_Inc (totalScrapes e),
       logger := Log (Log (logger e) [LogString ''parsed: %v'', LogResponse zero_APIResponse])
                   [LogString ''failed to parse body: %v'', LogError (JSONError jerr)]\<rparr>,
     Some (0, None))"
    using scrape_decode_error[of net "e\<lparr>mutex := True\<rparr>" delay _ body jerr] assms(2,3) by simp
  from Collect_nil_result[OF assms(1) this] show ?thesis by simp
qed

lemma parse_json_not_json: "parse_json ''not json'' = None"
  by code_simp

theorem Collect_malformed_body_witness:
  "\<not> mutex monitor
   \<and> snd (Unmarshal ''not json'' zero_APIResponse) = Some SyntaxError
   \<and> jsonParseFailures (fst (Collect monitor (\<lambda>u. Reply 0 \<lparr>StatusCode = 200, RespBody = Body ''not json''\<rparr>)))
       = jsonParseFailures monitor
   \<and> snd (Collect monitor (\<lambda>u. Reply 0 \<lparr>StatusCode = 200, RespBody = Body ''not json''\<rparr>)) =
       ([Counter_Metric (Counter_Inc (totalScrapes monitor)), Counter_Metric (jsonParseFailures monitor),
         gauge iqAirUp 0],
        Panicked nil_dereference)"
  using Collect_malformed_body[of monitor "\<lambda>u. Reply 0 \<lparr>StatusCode = 200, RespBody = Body ''not json''\<rparr>"
      0 200 "''not json''" SyntaxError]
  by (simp add: monitor_def NewExporter_def Unmarshal_def parse_json_not_json)

text \<open>
  C7. The GET is claimed to be bounded by the timeout handed to NewExporter. The
  exporter NewExporter builds does not depend on the timeout, and the GET is made by the
  default client, which has none: against an upstream that accepts the request and never
  answers, Collect never returns, whatever the timeout was, and the mutex stays held;
  and a reply is waited for and published however long it takes, also longer than the
  timeout.
\<close>

theorem scrape_timeout_not_enforced:
  "fst (NewExporter uri timeout lg) = fst (NewExporter uri 0 lg)
   \<and> snd (snd (Collect (the (fst (NewExporter uri timeout lg))) (\<lambda>u. NoReply))) = Blocked
   \<and> mutex (fst (Collect (the (fst (NewExporter uri timeout lg))) (\<lambda>u. NoReply)))
   \<and> snd (snd (Collect (the (fst (NewExporter uri timeout lg)))
                  (\<lambda>u. Reply delay \<lparr>StatusCode = 200, RespBody = Body ''{}''\<rparr>))) = Returned"
proof -
  define e where "e = the (fst (NewExporter uri timeout lg))"
  have m: "\<not> mutex e" by (simp add: e_def NewExporter_def)
  have z: "Unmarshal ''{}'' zero_APIResponse = (\<lparr>Current = zero_APIData\<rparr>, None)"
    unfolding Unmarshal_empty_object by (simp add: zero_APIResponse_def)
  have "snd (snd (Collect e (\<lambda>u. Reply delay \<lparr>StatusCode = 200, RespBody = Body ''{}''\<rparr>))) = Returned"
    using Collect_decoded[OF m _ _ z, of "\<lambda>u. Reply delay \<lparr>StatusCode = 200, RespBody = Body ''{}''\<rparr>" delay
        "\<lparr>StatusCode = 200, RespBody = Body ''{}''\<rparr>"]
    by simp
  moreover have "Collect e (\<lambda>u. NoReply) = (e\<lparr>mutex := True, totalScrapes := Counter_Inc (totalScrapes e)\<rparr>, [], Blocked)"
    using Collect_blocked[OF m, of "\<lambda>u. NoReply"] scrape_NoReply[of "\<lambda>u. NoReply" "e\<lparr>mutex := True\<rparr>"]
    by simp
  ultimately show ?thesis
    unfolding e_def[symmetric] by (simp add: e_def NewExporter_def)
qed

text \<open>
  C6. For the body \<^verbatim>\<open>{}\<close> the decode succeeds and leaves every field at its zero value,
  and Collect, on an exporter whose mutex is free, sends up=1 and the five reading gauges
  at 0 (whatever the status code of the response).
\<close>
theorem Collect_empty_object:
  assumes "\<not> mutex e" and "net (URI e) = Reply delay \<lparr>StatusCode = code, RespBody = Body ''{}''\<rparr>"
  shows "Unmarshal ''{}'' zero_APIResponse = (zero_APIResponse, None)
    \<and> snd (Collect e net) =
       ([Counter_Metric (Counter_Inc (totalScrapes e)), Counter_Metric (jsonParseFailures e),
         gauge iqAirUp 1, gauge iqAirCO2 0, gauge iqAirP25 0, gauge iqAirP10 0, gauge iqAirTemp 0,
         gauge iqAirHumidity 0],
        Returned)"
proof -
  have z: "float64_of_int 0 = 0" using float64_of_int_exact[of 0] by simp
  have "scrape (e\<lparr>mutex := True\<rparr>) net =
    (e\<lparr>mutex := True, totalScrapes := Counter_Inc (totalScrapes e),
       logger := Log (logger e) [LogString ''parsed: %v'', LogResponse zero_APIResponse]\<rparr>,
     Some (1, Some zero_APIData))"
    using scrape_decoded[of net "e\<lparr>mutex := True\<rparr>" delay _ "''{}''"] assms(2)
    by (simp add: Unmarshal_empty_object Current_zero)
  from Collect_result[OF assms(1) this] show ?thesis
    by (simp add: Unmarshal_empty_object zero_APIData_def z)
qed

theorem Collect_empty_object_witness:
  "\<not> mutex monitor
   \<and> map metric_value (fst (snd (Collect monitor (\<lambda>u. Reply 0 \<lparr>StatusCode = 200, RespBody = Body ''{}''\<rparr>))))
       = [1, 0, 1, 0, 0, 0, 0, 0]"
proof -
  have "float64_of_int 0 = 0" "float64_of_int 1 = 1"
    using float64_of_int_exact[of 0] float64_of_int_exact[of 1] by simp_all
  then show ?thesis
    using Collect_empty_object[of monitor "\<lambda>u. Reply 0 \<lparr>StatusCode = 200, RespBody = Body ''{}''\<rparr>" 0 200]
    by (simp add: monitor_def NewExporter_def NewCounter_def Counter_Metric_def Counter_Inc_def)
qed

text \<open>
  C10. Whenever the fetch and the decode both succeed, Collect sends exactly eight
  metrics, in the order totalScrapes, jsonParseFailures, up, co2, p25, p10, temperature,
  humidity, and returns.
\<close>
theorem Collect_success_sends_eight:
  assumes "\<not> mutex e" and "net (URI e) = Reply delay \<lparr>StatusCode = code, RespBody = Body body\<rparr>"
    and "snd (Unmarshal body zero_APIResponse) = None"
  shows "map metric_desc (fst (snd (Collect e net))) =
       [counter_desc (totalScrapes e), counter_desc (jsonParseFailures e),
        iqAirUp, iqAirCO2, iqAirP25, iqAirP10, iqAirTemp, iqAirHumidity]
    \<and> length (fst (snd (Collect e net))) = 8
    \<and> snd (snd (Collect e net)) = Returned"
proof -
  have "scrape (e\<lparr>mutex := True\<rparr>) net =
    (e\<lparr>mutex := True, totalScrapes := Counter_Inc (totalScrapes e),
       logger := Log (logger e) [LogString ''parsed: %v'', LogResponse zero_APIResponse]\<rparr>,
     Some (1, Some (Current (fst (Unmarshal body zero_APIResponse)))))"
    using scrape_decoded[of net "e\<lparr>mutex := True\<rparr>" delay _ body] assms(2,3) by simp
  from Collect_result[OF assms(1) this] show ?thesis by simp
qed

theorem Collect_success_sends_eight_witness:
  "\<not> mutex monitor
   \<and> snd (Unmarshal ''{}'' zero_APIResponse) = None
   \<and> map (fqName \<circ> metric_desc)
        (fst (snd (Collect monitor (\<lambda>u. Reply 0 \<lparr>StatusCode = 200, RespBody = Body ''{}''\<rparr>)))) =
       [''iqair_exporter_scrapes_total'', ''iqair_exporter_json_parse_failures_total'', ''iqair_up'',
        ''iqair_co2'', ''iqair_p25'', ''iqair_p10'', ''iqair_temperature'', ''iqair_humidity'']"
proof -
  have n: "map fqName [iqAirUp, iqAirCO2, iqAirP25, iqAirP10, iqAirTemp, iqAirHumidity] =
      [''iqair_up'', ''iqair_co2'', ''iqair_p25'', ''iqair_p10'', ''iqair_temperature'', ''iqair_humidity'']"
    by (simp add: iqAirUp_def iqAirCO2_def iqAirP25_def iqAirP10_def iqAirTemp_def iqAirHumidity_def
        NewDesc_def BuildFQName_def namespace_def)
  from Collect_success_sends_eight[of monitor "\<lambda>u. Reply 0 \<lparr>StatusCode = 200, RespBody = Body ''{}''\<rparr>" 0 200 "''{}''"]
  have "map metric_desc (fst (snd (Collect monitor (\<lambda>u. Reply 0 \<lparr>StatusCode = 200, RespBody = Body ''{}''\<rparr>)))) =
       [counter_desc (totalScrapes monitor), counter_desc (jsonParseFailures monitor),
        iqAirUp, iqAirCO2, iqAirP25, iqAirP10, iqAirTemp, iqAirHumidity]"
    by (simp add: Unmarshal_empty_object monitor_def NewExporter_def)
  then have "map (fqName \<circ> metric_desc)
        (fst (snd (Collect monitor (\<lambda>u. Reply 0 \<lparr>StatusCode = 200, RespBody = Body ''{}''\<rparr>)))) =
       map fqName [counter_desc (totalScrapes monitor), counter_desc (jsonParseFailures monitor),
        iqAirUp, iqAirCO2, iqAirP25, iqAirP10, iqAirTemp, iqAirHumidity]"
    by (simp only: map_map[symmetric])
  then show ?thesis
    using n by (simp add: Unmarshal_empty_object monitor_def NewExporter_def NewCounter_def NewDesc_def
        BuildFQName_def namespace_def)
qed

text \<open>
  C4, as amended. For every body that is the envelope, an object whose member
  \<^verbatim>\<open>current\<close> is an object with exactly the members co, p2, p1, tp, hm in any order,
  with integer literals in the int64 range for co, p2, p1, hm and a number literal with a
  finite nearest double for tp, Collect sends up=1 and, for each field, the double
  nearest to the JSON number, and returns. For an integer of magnitude at most
  \<open>2 ^ 53\<close> that double is the integer itself. The witness is the example body, for
  which the values are 1, 410, 5, 12, 21.5, 40.
\<close>

theorem Collect_envelope_values:
  assumes "\<not> mutex e" and "net (URI e) = Reply delay \<lparr>StatusCode = code, RespBody = Body body\<rparr>"
    and "parse_json body = Some (JObject [(''current'', JObject ms)])"
    and "distinct (map fst ms)"
    and "set ms = {(''co'', JNumber co), (''p2'', JNumber p2), (''p1'', JNumber p1),
                   (''tp'', JNumber tp), (''hm'', JNumber hm)}"
    and "int64_literal co" "int64_literal p2" "int64_literal p1"
    and "finite_literal tp" "int64_literal hm"
  shows "drop 2 (fst (snd (Collect e net))) =
      [gauge iqAirUp 1, gauge iqAirCO2 (nearest_float64 (lit_value co)),
       gauge iqAirP25 (nearest_float64 (lit_value p2)), gauge iqAirP10 (nearest_float64 (lit_value p1)),
       gauge iqAirTemp (nearest_float64 (lit_value tp)), gauge iqAirHumidity (nearest_float64 (lit_value hm))]
    \<and> snd (snd (Collect e net)) = Returned
    \<and> (exact_integer_literal co \<longrightarrow> nearest_float64 (lit_value co) = lit_value co)
    \<and> (exact_integer_literal p2 \<longrightarrow> nearest_float64 (lit_value p2) = lit_value p2)
    \<and> (exact_integer_literal p1 \<longrightarrow> nearest_float64 (lit_value p1) = lit_value p1)
    \<and> (exact_integer_literal hm \<longrightarrow> nearest_float64 (lit_value hm) = lit_value hm)"
proof -
  from ParseInt_int64[OF assms(6)] obtain vco where
    co: "ParseInt co = Some vco" "lit_value co = of_int vco" by blast
  from ParseInt_int64[OF assms(7)] obtain vp2 where
    p2: "ParseInt p2 = Some vp2" "lit_value p2 = of_int vp2" by blast
  from ParseInt_int64[OF assms(8)] obtain vp1 where
    p1: "ParseInt p1 = Some vp1" "lit_value p1 = of_int vp1" by blast
  from ParseInt_int64[OF assms(10)] obtain vhm where
    hm: "ParseInt hm = Some vhm" "lit_value hm = of_int vhm" by blast
  note tp = ParseFloat_finite[OF assms(9)]
  have ok: "\<forall>m\<in>set ms. reading_member m"
    unfolding assms(5) by (simp add: reading_member_def co(1) p2(1) p1(1) hm(1) tp)
  define d where "d = fst (foldl member_APIData (zero_APIData, None) ms)"
  have mem: "(''co'', JNumber co) \<in> set ms" "(''p2'', JNumber p2) \<in> set ms" "(''p1'', JNumber p1) \<in> set ms"
    "(''tp'', JNumber tp) \<in> set ms" "(''hm'', JNumber hm) \<in> set ms"
    unfolding assms(5) by simp_all
  from foldl_member_APIData[OF assms(4) ok, of zero_APIData] mem
  have flds: "CO2 d = vco" "P25 d = vp2" "P10 d = vp1" "Temperature d = nearest_float64 (lit_value tp)"
    "Humidity d = vhm"
    unfolding d_def[symmetric] by (simp_all add: co(1) p2(1) p1(1) hm(1) tp)
  have u: "Unmarshal body zero_APIResponse = (\<lparr>Current = d\<rparr>, None)"
    unfolding d_def by (rule Unmarshal_reading_object[OF assms(3,4) ok])
  have "RespBody \<lparr>StatusCode = code, RespBody = Body body\<rparr> = Body body" by simp
  from Collect_decoded[where e = e and net = net, OF assms(1,2) this u]
  have "drop 2 (fst (snd (Collect e net))) =
      [gauge iqAirUp 1, gauge iqAirCO2 (nearest_float64 (lit_value co)),
       gauge iqAirP25 (nearest_float64 (lit_value p2)), gauge iqAirP10 (nearest_float64 (lit_value p1)),
       gauge iqAirTemp (nearest_float64 (lit_value tp)), gauge iqAirHumidity (nearest_float64 (lit_value hm))]
    \<and> snd (snd (Collect e net)) = Returned"
    by (simp add: flds float64_of_int_def co(2) p2(2) p1(2) hm(2))
  then show ?thesis
    using exact_integer_literal_value by blast
qed

theorem Collect_envelope_values_witness:
  "\<not> mutex monitor
   \<and> parse_json example_body =
       Some (JObject [(''current'', JObject
          [(''co'', JNumber (NumLit False 410 None None)), (''p2'', JNumber (NumLit False 5 None None)),
           (''p1'', JNumber (NumLit False 12 None None)), (''tp'', JNumber (NumLit False 215 (Some 1) None)),
           (''hm'', JNumber (NumLit False 40 None None))])])
   \<and> int64_literal (NumLit False 410 None None) \<and> int64_literal (NumLit False 5 None None)
   \<and> int64_literal (NumLit False 12 None None) \<and> finite_literal (NumLit False 215 (Some 1) None)
   \<and> int64_literal (NumLit False 40 None None)
   \<and> exact_integer_literal (NumLit False 410 None None) \<and> exact_integer_literal (NumLit False 5 None None)
   \<and> exact_integer_literal (NumLit False 12 None None) \<and> exact_integer_literal (NumLit False 40 None None)
   \<and> drop 2 (fst (snd (Collect monitor (\<lambda>u. Reply 0 \<lparr>StatusCode = 200, RespBody = Body example_body\<rparr>)))) =
       [gauge iqAirUp 1, gauge iqAirCO2 410, gauge iqAirP25 5, gauge iqAirP10 12, gauge iqAirTemp (43 / 2),
        gauge iqAirHumidity 40]
   \<and> snd (snd (Collect monitor (\<lambda>u. Reply 0 \<lparr>StatusCode = 200, RespBody = Body example_body\<rparr>))) = Returned"
proof -
  have m: "\<not> mutex monitor" by (simp add: monitor_def NewExporter_def)
  have n: "(\<lambda>u. Reply 0 \<lparr>StatusCode = 200, RespBody = Body example_body\<rparr>) (URI monitor) =
      Reply 0 \<lparr>StatusCode = 200, RespBody = Body example_body\<rparr>" by simp
  have i: "int64_literal (NumLit False 410 None None)" "int64_literal (NumLit False 5 None None)"
    "int64_literal (NumLit False 12 None None)" "int64_literal (NumLit False 40 None None)"
    by (simp_all add: int64_literal_def)
  have x: "exact_integer_literal (NumLit False 410 None None)" "exact_integer_literal (NumLit False 5 None None)"
    "exact_integer_literal (NumLit False 12 None None)" "exact_integer_literal (NumLit False 40 None None)"
    by (simp_all add: exact_integer_literal_def)
  have v: "lit_value (NumLit False 410 None None) = 410" "lit_value (NumLit False 5 None None) = 5"
    "lit_value (NumLit False 12 None None) = 12" "lit_value (NumLit False 40 None None) = 40"
    by (simp_all add: lit_value_def)
  note p = parse_json_example_body[unfolded envelope_def]
  have dist: "distinct (map fst
          [(''co'', JNumber (NumLit False 410 None None)), (''p2'', JNumber (NumLit False 5 None None)),
           (''p1'', JNumber (NumLit False 12 None None)), (''tp'', JNumber (NumLit False 215 (Some 1) None)),
           (''hm'', JNumber (NumLit False 40 None None))])" by simp
  have st: "set [(''co'', JNumber (NumLit False 410 None None)), (''p2'', JNumber (NumLit False 5 None None)),
           (''p1'', JNumber (NumLit False 12 None None)), (''tp'', JNumber (NumLit False 215 (Some 1) None)),
           (''hm'', JNumber (NumLit False 40 None None))] =
      {(''co'', JNumber (NumLit False 410 None None)), (''p2'', JNumber (NumLit False 5 None None)),
       (''p1'', JNumber (NumLit False 12 None None)), (''tp'', JNumber (NumLit False 215 (Some 1) None)),
       (''hm'', JNumber (NumLit False 40 None None))}" by (simp only: list.set)
  note t = Collect_envelope_values[where e = monitor
      and net = "\<lambda>u. Reply 0 \<lparr>StatusCode = 200, RespBody = Body example_body\<rparr>",
      OF m n p dist st i(1,2,3) finite_literal_21_5 i(4)]
  from t x have e: "nearest_float64 (lit_value (NumLit False 410 None None)) = lit_value (NumLit False 410 None None)"
    "nearest_float64 (lit_value (NumLit False 5 None None)) = lit_value (NumLit False 5 None None)"
    "nearest_float64 (lit_value (NumLit False 12 None None)) = lit_value (NumLit False 12 None None)"
    "nearest_float64 (lit_value (NumLit False 40 None None)) = lit_value (NumLit False 40 None None)"
    by blast+
  then have e': "nearest_float64 410 = 410" "nearest_float64 5 = 5" "nearest_float64 12 = 12"
    "nearest_float64 40 = 40"
    by (simp_all only: v)
  from t have "drop 2 (fst (snd (Collect monitor (\<lambda>u. Reply 0 \<lparr>StatusCode = 200, RespBody = Body example_body\<rparr>)))) =
       [gauge iqAirUp 1, gauge iqAirCO2 410, gauge iqAirP25 5, gauge iqAirP10 12, gauge iqAirTemp (43 / 2),
        gauge iqAirHumidity 40]
     \<and> snd (snd (Collect monitor (\<lambda>u. Reply 0 \<lparr>StatusCode = 200, RespBody = Body example_body\<rparr>))) = Returned"
    by (simp only: v e' lit_value_21_5 nearest_float64_21_5 simp_thms)
  then show ?thesis
    using m i x finite_literal_21_5 p by (simp only: simp_thms)
qed

text \<open>
  C4 as stated fails for integers beyond \<open>2 ^ 53\<close>: the body with
  \<^verbatim>\<open>"co":9007199254740993\<close> is the envelope, the field decodes to that int, and the gauge
  sent is 9007199254740992, the result of \<^verbatim>\<open>float64(result.CO2)\<close>.
\<close>

theorem large_integer_not_preserved:
  "parse_json large_co_body =
       Some (envelope (NumLit False 9007199254740993 None None) (NumLit False 5 None None)
               (NumLit False 12 None None) (NumLit False 215 (Some 1) None) (NumLit False 40 None None))
   \<and> lit_value (NumLit False 9007199254740993 None None) = 9007199254740993
   \<and> ParseInt (NumLit False 9007199254740993 None None) = Some 9007199254740993
   \<and> drop 2 (fst (snd (Collect monitor (\<lambda>u. Reply 0 \<lparr>StatusCode = 200, RespBody = Body large_co_body\<rparr>)))) =
       [gauge iqAirUp 1, gauge iqAirCO2 9007199254740992, gauge iqAirP25 5, gauge iqAirP10 12,
        gauge iqAirTemp (43 / 2), gauge iqAirHumidity 40]
   \<and> (9007199254740992 :: rat) \<noteq> lit_value (NumLit False 9007199254740993 None None)"
proof -
  have m: "\<not> mutex monitor" by (simp add: monitor_def NewExporter_def)
  have p: "ParseInt (NumLit False 9007199254740993 None None) = Some 9007199254740993"
    "ParseInt (NumLit False 5 None None) = Some 5" "ParseInt (NumLit False 12 None None) = Some 12"
    "ParseInt (NumLit False 40 None None) = Some 40"
    by (simp_all add: ParseInt_def)
  note u = Unmarshal_envelope[OF parse_json_large_co_body p(1,2,3) ParseFloat_finite[OF finite_literal_21_5] p(4)]
  have f: "float64_of_int 5 = 5" "float64_of_int 12 = 12" "float64_of_int 40 = 40"
    using float64_of_int_exact[of 5] float64_of_int_exact[of 12] float64_of_int_exact[of 40] by simp_all
  have "Collect monitor (\<lambda>u. Reply 0 \<lparr>StatusCode = 200, RespBody = Body large_co_body\<rparr>) =
    (monitor\<lparr>mutex := False, totalScrapes := Counter_Inc (totalScrapes monitor),
       logger := Log (logger monitor) [LogString ''parsed: %v'', LogResponse zero_APIResponse]\<rparr>,
     [Counter_Metric (Counter_Inc (totalScrapes monitor)), Counter_Metric (jsonParseFailures monitor),
      gauge iqAirUp 1,
      gauge iqAirCO2 (float64_of_int 9007199254740993), gauge iqAirP25 (float64_of_int 5),
      gauge iqAirP10 (float64_of_int 12), gauge iqAirTemp (nearest_float64 (lit_value (NumLit False 215 (Some 1) None))),
      gauge iqAirHumidity (float64_of_int 40)],
     Returned)"
    using Collect_decoded[OF m _ _ u, of "\<lambda>u. Reply 0 \<lparr>StatusCode = 200, RespBody = Body large_co_body\<rparr>" 0
        "\<lparr>StatusCode = 200, RespBody = Body large_co_body\<rparr>"]
    by simp
  then have "drop 2 (fst (snd (Collect monitor (\<lambda>u. Reply 0 \<lparr>StatusCode = 200, RespBody = Body large_co_body\<rparr>)))) =
     [gauge iqAirUp 1,
      gauge iqAirCO2 (float64_of_int 9007199254740993), gauge iqAirP25 (float64_of_int 5),
      gauge iqAirP10 (float64_of_int 12), gauge iqAirTemp (nearest_float64 (lit_value (NumLit False 215 (Some 1) None))),
      gauge iqAirHumidity (float64_of_int 40)]"
    by simp
  then have "drop 2 (fst (snd (Collect monitor (\<lambda>u. Reply 0 \<lparr>StatusCode = 200, RespBody = Body large_co_body\<rparr>)))) =
       [gauge iqAirUp 1, gauge iqAirCO2 9007199254740992, gauge iqAirP25 5, gauge iqAirP10 12,
        gauge iqAirTemp (43 / 2), gauge iqAirHumidity 40]"
    by (simp only: f float64_of_int_rounds lit_value_21_5 nearest_float64_21_5)
  moreover have l: "lit_value (NumLit False 9007199254740993 None None) = 9007199254740993"
    by (simp add: lit_value_def)
  moreover have "(9007199254740992 :: rat) \<noteq> lit_value (NumLit False 9007199254740993 None None)"
    by (simp add: l)
  ultimately show ?thesis
    using parse_json_large_co_body p(1) by (simp only: simp_thms)
qed

text \<open>
  C5, as amended. Collect publishes a reading as valid (up=1 followed by the five gauges
  of the decoded values, and a normal return) exactly when the GET returned a response,
  of whatever status code, its body was read and the decode gave no error; in every
  other case in which the GET returns, the up indicator sent is 0.
\<close>
theorem Collect_valid_iff_decoded:
  assumes "\<not> mutex e" and "net (URI e) \<noteq> NoReply"
  shows "case decoded_reading (net (URI e)) of
      Some d \<Rightarrow>
        drop 2 (fst (snd (Collect e net))) =
          [gauge iqAirUp 1, gauge iqAirCO2 (float64_of_int (CO2 d)), gauge iqAirP25 (float64_of_int (P25 d)),
           gauge iqAirP10 (float64_of_int (P10 d)), gauge iqAirTemp (Temperature d),
           gauge iqAirHumidity (float64_of_int (Humidity d))]
        \<and> snd (snd (Collect e net)) = Returned
    | None \<Rightarrow> take 1 (drop 2 (fst (snd (Collect e net)))) = [gauge iqAirUp 0]"
proof (cases "net (URI e)")
  case (Unreachable msg)
  have "scrape (e\<lparr>mutex := True\<rparr>) net =
    (e\<lparr>mutex := True, totalScrapes := Counter_Inc (totalScrapes e),
       logger := Log (logger e) [LogString ''failed to scrape: %v'', LogError (HTTPError msg)]\<rparr>,
     Some (0, None))"
    using scrape_Unreachable[of net "e\<lparr>mutex := True\<rparr>" msg] Unreachable by simp
  from Collect_nil_result[OF assms(1) this] Unreachable show ?thesis
    by (simp add: decoded_reading_def)
next
  case NoReply
  with assms(2) show ?thesis by simp
next
  case (Reply delay resp)
  show ?thesis
  proof (cases "RespBody resp")
    case (ReadFails msg)
    have "scrape (e\<lparr>mutex := True\<rparr>) net =
      (e\<lparr>mutex := True, totalScrapes := Counter_Inc (totalScrapes e),
         logger := Log (logger e) [LogString ''failed to read body: %v'', LogError (ReadError msg)]\<rparr>,
       Some (0, None))"
      using scrape_ReadFails[of net "e\<lparr>mutex := True\<rparr>" delay resp msg] Reply ReadFails by simp
    from Collect_nil_result[OF assms(1) this] Reply ReadFails show ?thesis
      by (simp add: decoded_reading_def)
  next
    case (Body body)
    show ?thesis
    proof (cases "snd (Unmarshal body zero_APIResponse)")
      case None
      obtain d where d: "fst (Unmarshal body zero_APIResponse) = \<lparr>Current = d\<rparr>"
        by (cases "fst (Unmarshal body zero_APIResponse)") simp
      with None have "Unmarshal body zero_APIResponse = (\<lparr>Current = d\<rparr>, None)"
        by (simp add: prod_eq_iff)
      from Collect_decoded[where e = e and net = net, OF assms(1) Reply Body this] Reply Body None d show ?thesis
        by (simp add: decoded_reading_def)
    next
      case (Some jerr)
      have "scrape (e\<lparr>mutex := True\<rparr>) net =
        (e\<lparr>mutex := True, totalScrapes := Counter_Inc (totalScrapes e),
           logger := Log (Log (logger e) [LogString ''parsed: %v'', LogResponse zero_APIResponse])
                       [LogString ''failed to parse body: %v'', LogError (JSONError jerr)]\<rparr>,
         Some (0, None))"
        using scrape_decode_error[of net "e\<lparr>mutex := True\<rparr>" delay resp body jerr] Reply Body Some by simp
      from Collect_nil_result[OF assms(1) this] Reply Body Some show ?thesis
        by (simp add: decoded_reading_def)
    qed
  qed
qed

theorem Collect_valid_iff_decoded_witness:
  "\<not> mutex monitor
   \<and> decoded_reading (Unreachable ''no route to host'') = None
   \<and> take 1 (drop 2 (fst (snd (Collect monitor (\<lambda>u. Unreachable ''no route to host''))))) = [gauge iqAirUp 0]
   \<and> decoded_reading (Reply 0 \<lparr>StatusCode = 200, RespBody = Body example_body\<rparr>) =
       Some \<lparr>CO2 = 410, P25 = 5, P10 = 12, Temperature = 43 / 2, Humidity = 40\<rparr>
   \<and> drop 2 (fst (snd (Collect monitor (\<lambda>u. Reply 0 \<lparr>StatusCode = 200, RespBody = Body example_body\<rparr>)))) =
       [gauge iqAirUp 1, gauge iqAirCO2 410, gauge iqAirP25 5, gauge iqAirP10 12, gauge iqAirTemp (43 / 2),
        gauge iqAirHumidity 40]
   \<and> snd (snd (Collect monitor (\<lambda>u. Reply 0 \<lparr>StatusCode = 200, RespBody = Body example_body\<rparr>))) = Returned"
proof -
  have m: "\<not> mutex monitor" by (simp add: monitor_def NewExporter_def)
  have d: "decoded_reading (Reply 0 \<lparr>StatusCode = 200, RespBody = Body example_body\<rparr>) =
       Some \<lparr>CO2 = 410, P25 = 5, P10 = 12, Temperature = 43 / 2, Humidity = 40\<rparr>"
    by (simp add: decoded_reading_def Unmarshal_example_body)
  have n: "decoded_reading (Unreachable ''no route to host'') = None"
    by (simp add: decoded_reading_def)
  from Collect_valid_iff_decoded[where e = monitor and net = "\<lambda>u. Unreachable ''no route to host''", OF m]
  have a: "take 1 (drop 2 (fst (snd (Collect monitor (\<lambda>u. Unreachable ''no route to host''))))) =
      [gauge iqAirUp 0]"
    by (simp add: n)
  from Collect_valid_iff_decoded[where e = monitor
      and net = "\<lambda>u. Reply 0 \<lparr>StatusCode = 200, RespBody = Body example_body\<rparr>", OF m]
  have b: "drop 2 (fst (snd (Collect monitor (\<lambda>u. Reply 0 \<lparr>StatusCode = 200, RespBody = Body example_body\<rparr>)))) =
       [gauge iqAirUp 1, gauge iqAirCO2 410, gauge iqAirP25 5, gauge iqAirP10 12, gauge iqAirTemp (43 / 2),
        gauge iqAirHumidity 40]
     \<and> snd (snd (Collect monitor (\<lambda>u. Reply 0 \<lparr>StatusCode = 200, RespBody = Body example_body\<rparr>))) = Returned"
    by (simp add: d float64_of_int_example)
  from m n a d b show ?thesis by (simp only: simp_thms)
qed

text \<open>
  C5 as stated fails on the status code: a response with status 500 that carries the
  example body is published as a valid reading, up=1 with the decoded values.
\<close>

theorem reading_published_on_http_500:
  "StatusCode \<lparr>StatusCode = 500, RespBody = Body example_body\<rparr> = 500
   \<and> decoded_reading (Reply 0 \<lparr>StatusCode = 500, RespBody = Body example_body\<rparr>) =
      Some \<lparr>CO2 = 410, P25 = 5, P10 = 12, Temperature = 43 / 2, Humidity = 40\<rparr>
   \<and> drop 2 (fst (snd (Collect monitor (\<lambda>u. Reply 0 \<lparr>StatusCode = 500, RespBody = Body example_body\<rparr>)))) =
       [gauge iqAirUp 1, gauge iqAirCO2 410, gauge iqAirP25 5, gauge iqAirP10 12, gauge iqAirTemp (43 / 2),
        gauge iqAirHumidity 40]
   \<and> snd (snd (Collect monitor (\<lambda>u. Reply 0 \<lparr>StatusCode = 500, RespBody = Body example_body\<rparr>))) = Returned"
proof -
  have m: "\<not> mutex monitor" by (simp add: monitor_def NewExporter_def)
  have "Collect monitor (\<lambda>u. Reply 0 \<lparr>StatusCode = 500, RespBody = Body example_body\<rparr>) =
    (monitor\<lparr>mutex := False, totalScrapes := Counter_Inc (totalScrapes monitor),
       logger := Log (logger monitor) [LogString ''parsed: %v'', LogResponse zero_APIResponse]\<rparr>,
     [Counter_Metric (Counter_Inc (totalScrapes monitor)), Counter_Metric (jsonParseFailures monitor),
      gauge iqAirUp 1, gauge iqAirCO2 410, gauge iqAirP25 5, gauge iqAirP10 12, gauge iqAirTemp (43 / 2),
      gauge iqAirHumidity 40],
     Returned)"
    using Collect_decoded[OF m _ _ Unmarshal_example_body,
        of "\<lambda>u. Reply 0 \<lparr>StatusCode = 500, RespBody = Body example_body\<rparr>" 0
        "\<lparr>StatusCode = 500, RespBody = Body example_body\<rparr>"]
    by (simp add: float64_of_int_example)
  then show ?thesis
    by (simp add: decoded_reading_def Unmarshal_example_body)
qed

end
